theory Spec2Isabelle
  imports Main "HOL-Library.Sublist"
begin

section \<open>Python values and the operations the program applies to them\<close>

text \<open>
  The program of \<^verbatim>\<open>py-scripts/get_evpn2.py\<close> walks the tree that the gNMI client
  decodes from a JSON answer. A tree is a Python value: \<^verbatim>\<open>None\<close>, a string, a number,
  a boolean, a list, or a dict whose keys are strings. A dict is kept as the list of its
  items in insertion order (a Python dict has each key once; where a list of items repeats
  a key, the first item is the one read). Numbers are integers here: the program never
  computes with a number, it only copies it.
\<close>

datatype pyval =
    PNone
  | PStr string
  | PInt int
  | PBool bool
  | PList "pyval list"
  | PDict "(string \<times> pyval) list"

text \<open>
  The exceptions that the program can meet. \<open>KeyError k\<close> is raised by \<^verbatim>\<open>d[k]\<close> on a
  dict without the key \<open>k\<close> (the exception carries the key); \<open>TypeError\<close> by subscripting, iterating or testing
  membership in a value that does not support it, and by using an unhashable value as a
  dict key; \<open>AttributeError\<close> by \<^verbatim>\<open>.get\<close> on a value that is not a dict;
  \<open>TransportError m\<close> stands for any exception (a subclass of \<^verbatim>\<open>Exception\<close>)
  that the gNMI client raises, with its message.
\<close>

datatype exn =
    KeyError pyval
  | TypeError
  | AttributeError
  | TransportError string

text \<open>\<^verbatim>\<open>v[k]\<close> for a string literal \<open>k\<close>.\<close>

fun py_getitem :: "pyval \<Rightarrow> string \<Rightarrow> exn + pyval" where
  "py_getitem (PDict d) k = (case map_of d k of None \<Rightarrow> Inl (KeyError (PStr k)) | Some v \<Rightarrow> Inr v)"
| "py_getitem _ k = Inl TypeError"

text \<open>\<^verbatim>\<open>for x in v\<close>: the values that the loop visits, or the exception of \<^verbatim>\<open>iter(v)\<close>.\<close>

fun py_iter :: "pyval \<Rightarrow> exn + pyval list" where
  "py_iter (PList xs) = Inr xs"
| "py_iter (PDict d) = Inr (map (\<lambda>kv. PStr (fst kv)) d)"
| "py_iter (PStr s) = Inr (map (\<lambda>c. PStr [c]) s)"
| "py_iter _ = Inl TypeError"

text \<open>
  \<^verbatim>\<open>k in v\<close> for a string literal \<open>k\<close>: a key of a dict, an element of a list, a
  substring of a string.
\<close>

fun py_contains :: "string \<Rightarrow> pyval \<Rightarrow> exn + bool" where
  "py_contains k (PDict d) = Inr (k \<in> set (map fst d))"
| "py_contains k (PList xs) = Inr (PStr k \<in> set xs)"
| "py_contains k (PStr s) = Inr (sublist k s)"
| "py_contains k _ = Inl TypeError"

text \<open>\<^verbatim>\<open>v.get(k, dflt)\<close>; \<^verbatim>\<open>v.get(k)\<close> is \<open>py_get v k PNone\<close>.\<close>

fun py_get :: "pyval \<Rightarrow> string \<Rightarrow> pyval \<Rightarrow> exn + pyval" where
  "py_get (PDict d) k dflt = (case map_of d k of None \<Rightarrow> Inr dflt | Some v \<Rightarrow> Inr v)"
| "py_get _ k dflt = Inl AttributeError"

text \<open>Sequencing of two computations that may raise.\<close>

fun bind_exn :: "exn + 'a \<Rightarrow> ('a \<Rightarrow> exn + 'b) \<Rightarrow> exn + 'b" where
  "bind_exn (Inl e) f = Inl e"
| "bind_exn (Inr v) f = f v"

section \<open>The process state and the network\<close>

text \<open>
  \<^verbatim>\<open>logging.CRITICAL\<close> and \<^verbatim>\<open>logging.WARNING\<close>.
\<close>

definition LOGGING_LEVEL_CRITICAL :: int where
  "LOGGING_LEVEL_CRITICAL = 50"

definition LOGGING_LEVEL_WARNING :: int where
  "LOGGING_LEVEL_WARNING = 30"

definition DEFAULT_MODEL :: string where
  "DEFAULT_MODEL = ''ixrd3''"

definition DEFAULT_RELEASE :: string where
  "DEFAULT_RELEASE = ''21.6.4''"

text \<open>The arguments of \<^verbatim>\<open>gNMIclient(target=..., username=..., password=..., skip_verify=...)\<close>.\<close>

record session =
  target :: "string \<times> int"
  s_username :: string
  s_password :: string
  s_skip_verify :: bool

text \<open>
  What one \<^verbatim>\<open>with gNMIclient(...) as gc: result = gc.get(path=...)\<close> does:
  \<open>Failed e\<close> when opening the session or the get raises \<open>e\<close> (nothing is assigned to
  \<^verbatim>\<open>result\<close>); \<open>Fetched v None\<close> when the get returns \<open>v\<close> and the session closes;
  \<open>Fetched v (Some e)\<close> when the get returns \<open>v\<close> and closing the session raises \<open>e\<close>.
\<close>

datatype outcome =
    Failed exn
  | Fetched pyval "exn option"

text \<open>
  The network answers a session and a path; the answer may differ from one call of the run
  to the next, so it also depends on the number of calls made before.
\<close>

type_synonym network = "session \<Rightarrow> string list \<Rightarrow> nat \<Rightarrow> outcome"

text \<open>The lines that the program prints, by the statement that prints them.\<close>

datatype printed =
    FailedToConnect exn
  | MissingKey exn
  | UnexpectedError exn

text \<open>
  One entry of the trace of gNMI calls: the session opened, the path read, and the level of
  the \<^verbatim>\<open>pygnmi\<close> logger at that moment.
\<close>

record gnmi_call =
  c_session :: session
  c_path :: "string list"
  c_level :: int

record proc_state =
  pygnmi_level :: int
  stdout :: "printed list"
  calls :: "gnmi_call list"

definition setLevel :: "int \<Rightarrow> proc_state \<Rightarrow> proc_state" where
  "setLevel l s = s\<lparr>pygnmi_level := l\<rparr>"

definition py_print :: "printed \<Rightarrow> proc_state \<Rightarrow> proc_state" where
  "py_print line s = s\<lparr>stdout := stdout s @ [line]\<rparr>"

definition gc_get :: "network \<Rightarrow> session \<Rightarrow> string list \<Rightarrow> proc_state \<Rightarrow> outcome \<times> proc_state" where
  "gc_get net sess gnmi_path s =
     (net sess gnmi_path (length (calls s)),
      s\<lparr>calls := calls s @ [\<lparr>c_session = sess, c_path = gnmi_path, c_level = pygnmi_level s\<rparr>]\<rparr>)"

section \<open>The device class\<close>

record BgpEvpn =
  evpn_network_instance :: pyval
  evpn_id :: pyval
  evpn_admin_state :: pyval
  evpn_vxlan_interface :: pyval
  evpn_evi :: pyval
  evpn_ecmp :: pyval
  evpn_oper_state :: pyval

record BgpVpn =
  vpn_network_instance :: pyval
  vpn_id :: pyval
  vpn_rd :: pyval
  vpn_export_rt :: pyval
  vpn_import_rt :: pyval

record SrlDevice =
  router :: string
  port :: int
  password :: string
  username :: string
  skip_verify :: bool
  model :: string
  release :: string
  bgp_evpn :: "BgpEvpn list"
  bgp_vpn :: "BgpVpn list"

subsection \<open>Reading the instances of one path\<close>

definition NI_KEY :: string where
  "NI_KEY = ''srl_nokia-network-instance:network-instance''"

text \<open>
  The loop over the updates of one notification. \<open>info\<close> is the list collected so far; the
  result is the list when the loop stops, and the exception that stopped it, if any.
\<close>

fun collect_updates :: "pyval list \<Rightarrow> pyval list \<Rightarrow> pyval list \<times> exn option" where
  "collect_updates [] info = (info, None)"
| "collect_updates (update # us) info =
     (case py_getitem update ''val'' of
        Inl e \<Rightarrow> (info, Some e)
      | Inr val \<Rightarrow>
          (case py_contains NI_KEY val of
             Inl e \<Rightarrow> (info, Some e)
           | Inr False \<Rightarrow> collect_updates us info
           | Inr True \<Rightarrow>
               (case bind_exn (py_getitem val NI_KEY) py_iter of
                  Inl e \<Rightarrow> (info, Some e)
                | Inr network_instances \<Rightarrow> collect_updates us (info @ network_instances))))"

fun collect_notifications :: "pyval list \<Rightarrow> pyval list \<Rightarrow> pyval list \<times> exn option" where
  "collect_notifications [] info = (info, None)"
| "collect_notifications (notification # ns) info =
     (case bind_exn (py_getitem notification ''update'') py_iter of
        Inl e \<Rightarrow> (info, Some e)
      | Inr us \<Rightarrow>
          (case collect_updates us info of
             (info', Some e) \<Rightarrow> (info', Some e)
           | (info', None) \<Rightarrow> collect_notifications ns info'))"

definition collect_result :: "pyval \<Rightarrow> pyval list \<times> exn option" where
  "collect_result result =
     (case bind_exn (py_getitem result ''notification'') py_iter of
        Inl e \<Rightarrow> ([], Some e)
      | Inr ns \<Rightarrow> collect_notifications ns [])"

text \<open>The two \<^verbatim>\<open>except\<close> clauses around the loops.\<close>

fun report_processing :: "exn option \<Rightarrow> proc_state \<Rightarrow> proc_state" where
  "report_processing None s = s"
| "report_processing (Some (KeyError k)) s = py_print (MissingKey (KeyError k)) s"
| "report_processing (Some e) s = py_print (UnexpectedError e) s"

text \<open>
  \<^verbatim>\<open>SrlDevice._get_gnmi_info\<close>. The first \<^verbatim>\<open>try\<close> leaves \<^verbatim>\<open>result\<close> at
  \<^verbatim>\<open>None\<close> unless the get returned; its \<^verbatim>\<open>finally\<close> sets the logger level on
  every path.
\<close>

definition get_gnmi_info :: "network \<Rightarrow> SrlDevice \<Rightarrow> string list \<Rightarrow> proc_state \<Rightarrow> pyval list \<times> proc_state" where
  "get_gnmi_info net self gnmi_path s =
     (let s1 = setLevel LOGGING_LEVEL_CRITICAL s;
          (out, s2) = gc_get net
             \<lparr>target = (router self, port self), s_username = username self,
              s_password = password self, s_skip_verify = True\<rparr> gnmi_path s1;
          (result, s3) =
             (case out of
                Failed e \<Rightarrow> (PNone, py_print (FailedToConnect e) s2)
              | Fetched v None \<Rightarrow> (v, s2)
              | Fetched v (Some e) \<Rightarrow> (v, py_print (FailedToConnect e) s2));
          s4 = setLevel LOGGING_LEVEL_WARNING s3
      in if result \<noteq> PNone
         then (let (info, err) = collect_result result in (info, report_processing err s4))
         else ([], s4))"

subsection \<open>EVPN records\<close>

text \<open>
  One \<^verbatim>\<open>BgpEvpn(...)\<close> of \<^verbatim>\<open>get_bgp_evpn_info\<close>: the membership test first, then
  the arguments of the constructor from left to right.
\<close>

definition make_evpn :: "pyval \<Rightarrow> pyval \<Rightarrow> exn + BgpEvpn" where
  "make_evpn network_instance bgp_instance =
     (case py_contains ''oper-state'' bgp_instance of
        Inl e \<Rightarrow> Inl e
      | Inr False \<Rightarrow>
          bind_exn (py_getitem network_instance ''name'') (\<lambda>a1.
          bind_exn (py_getitem bgp_instance ''id'') (\<lambda>a2.
          bind_exn (py_getitem bgp_instance ''admin-state'') (\<lambda>a3.
          bind_exn (py_getitem bgp_instance ''vxlan-interface'') (\<lambda>a4.
          bind_exn (py_getitem bgp_instance ''evi'') (\<lambda>a5.
          bind_exn (py_getitem bgp_instance ''ecmp'') (\<lambda>a6.
          Inr \<lparr>evpn_network_instance = a1, evpn_id = a2, evpn_admin_state = a3,
               evpn_vxlan_interface = a4, evpn_evi = a5, evpn_ecmp = a6,
               evpn_oper_state = PStr ''no state''\<rparr>))))))
      | Inr True \<Rightarrow>
          bind_exn (py_getitem network_instance ''name'') (\<lambda>a1.
          bind_exn (py_getitem bgp_instance ''id'') (\<lambda>a2.
          bind_exn (py_getitem bgp_instance ''admin-state'') (\<lambda>a3.
          bind_exn (py_getitem bgp_instance ''vxlan-interface'') (\<lambda>a4.
          bind_exn (py_getitem bgp_instance ''evi'') (\<lambda>a5.
          bind_exn (py_getitem bgp_instance ''ecmp'') (\<lambda>a6.
          bind_exn (py_getitem bgp_instance ''oper-state'') (\<lambda>a7.
          Inr \<lparr>evpn_network_instance = a1, evpn_id = a2, evpn_admin_state = a3,
               evpn_vxlan_interface = a4, evpn_evi = a5, evpn_ecmp = a6,
               evpn_oper_state = a7\<rparr>))))))))"

text \<open>
  The inner loop, over the bgp-instances of one network instance; \<open>recs\<close> is the list
  \<^verbatim>\<open>bgp_evpn\<close> of the source.
\<close>

fun evpn_bgp_instances :: "pyval \<Rightarrow> pyval list \<Rightarrow> BgpEvpn list \<Rightarrow> exn + BgpEvpn list" where
  "evpn_bgp_instances network_instance [] recs = Inr recs"
| "evpn_bgp_instances network_instance (bgp_instance # bs) recs =
     (case make_evpn network_instance bgp_instance of
        Inl e \<Rightarrow> Inl e
      | Inr r \<Rightarrow> evpn_bgp_instances network_instance bs (recs @ [r]))"

text \<open>
  \<^verbatim>\<open>network_instance['protocols']['bgp-evpn']['srl_nokia-bgp-evpn:bgp-instance']\<close>, as the
  values that the inner loop visits.
\<close>

definition evpn_branch :: "pyval \<Rightarrow> exn + pyval list" where
  "evpn_branch network_instance =
     bind_exn (py_getitem network_instance ''protocols'') (\<lambda>p.
     bind_exn (py_getitem p ''bgp-evpn'') (\<lambda>b.
     bind_exn (py_getitem b ''srl_nokia-bgp-evpn:bgp-instance'') py_iter))"

text \<open>The outer loop, over the network instances.\<close>

fun evpn_instances :: "pyval list \<Rightarrow> BgpEvpn list \<Rightarrow> exn + BgpEvpn list" where
  "evpn_instances [] recs = Inr recs"
| "evpn_instances (network_instance # nis) recs =
     (case evpn_branch network_instance of
        Inl e \<Rightarrow> Inl e
      | Inr bs \<Rightarrow>
          (case evpn_bgp_instances network_instance bs recs of
             Inl e \<Rightarrow> Inl e
           | Inr recs' \<Rightarrow> evpn_instances nis recs'))"

definition EVPN_PATH :: "string list" where
  "EVPN_PATH = [''network-instance/protocols/bgp-evpn/bgp-instance'']"

definition get_bgp_evpn_info :: "network \<Rightarrow> SrlDevice \<Rightarrow> proc_state \<Rightarrow> (exn + BgpEvpn list) \<times> proc_state" where
  "get_bgp_evpn_info net self s =
     (let (info, s') = get_gnmi_info net self EVPN_PATH s
      in (evpn_instances info [], s'))"

subsection \<open>VPN records\<close>

text \<open>\<^verbatim>\<open>bgp_instance.get(k1, {}).get(k2)\<close>.\<close>

definition get_get :: "pyval \<Rightarrow> string \<Rightarrow> string \<Rightarrow> exn + pyval" where
  "get_get bgp_instance k1 k2 =
     bind_exn (py_get bgp_instance k1 (PDict [])) (\<lambda>d. py_get d k2 PNone)"

definition make_vpn :: "pyval \<Rightarrow> pyval \<Rightarrow> exn + BgpVpn" where
  "make_vpn network_instance bgp_instance =
     bind_exn (py_getitem network_instance ''name'') (\<lambda>a1.
     bind_exn (py_getitem bgp_instance ''id'') (\<lambda>a2.
     bind_exn (get_get bgp_instance ''route-distinguisher'' ''rd'') (\<lambda>a3.
     bind_exn (get_get bgp_instance ''route-target'' ''export-rt'') (\<lambda>a4.
     bind_exn (get_get bgp_instance ''route-target'' ''import-rt'') (\<lambda>a5.
     Inr \<lparr>vpn_network_instance = a1, vpn_id = a2, vpn_rd = a3,
          vpn_export_rt = a4, vpn_import_rt = a5\<rparr>)))))"

fun vpn_bgp_instances :: "pyval \<Rightarrow> pyval list \<Rightarrow> BgpVpn list \<Rightarrow> exn + BgpVpn list" where
  "vpn_bgp_instances network_instance [] recs = Inr recs"
| "vpn_bgp_instances network_instance (bgp_instance # bs) recs =
     (case make_vpn network_instance bgp_instance of
        Inl e \<Rightarrow> Inl e
      | Inr r \<Rightarrow> vpn_bgp_instances network_instance bs (recs @ [r]))"

text \<open>\<^verbatim>\<open>network_instance['protocols']['srl_nokia-bgp-vpn:bgp-vpn']['bgp-instance']\<close>.\<close>

definition vpn_branch :: "pyval \<Rightarrow> exn + pyval list" where
  "vpn_branch network_instance =
     bind_exn (py_getitem network_instance ''protocols'') (\<lambda>p.
     bind_exn (py_getitem p ''srl_nokia-bgp-vpn:bgp-vpn'') (\<lambda>b.
     bind_exn (py_getitem b ''bgp-instance'') py_iter))"

fun vpn_instances :: "pyval list \<Rightarrow> BgpVpn list \<Rightarrow> exn + BgpVpn list" where
  "vpn_instances [] recs = Inr recs"
| "vpn_instances (network_instance # nis) recs =
     (case vpn_branch network_instance of
        Inl e \<Rightarrow> Inl e
      | Inr bs \<Rightarrow>
          (case vpn_bgp_instances network_instance bs recs of
             Inl e \<Rightarrow> Inl e
           | Inr recs' \<Rightarrow> vpn_instances nis recs'))"

definition VPN_PATH :: "string list" where
  "VPN_PATH = [''network-instance/protocols/bgp-vpn/bgp-instance'']"

definition get_bgp_vpn_info :: "network \<Rightarrow> SrlDevice \<Rightarrow> proc_state \<Rightarrow> (exn + BgpVpn list) \<times> proc_state" where
  "get_bgp_vpn_info net self s =
     (let (info, s') = get_gnmi_info net self VPN_PATH s
      in (vpn_instances info [], s'))"

subsection \<open>The constructor\<close>

text \<open>
  \<^verbatim>\<open>SrlDevice.__init__\<close>: the seven attributes, then the two fetches. The attributes
  \<^verbatim>\<open>bgp_evpn\<close> and \<^verbatim>\<open>bgp_vpn\<close> do not exist before their assignment and no method
  reads them; they start as the empty list here. An exception of either fetch leaves the
  constructor.
\<close>

definition SrlDevice_init ::
  "network \<Rightarrow> string \<Rightarrow> int \<Rightarrow> string \<Rightarrow> string \<Rightarrow> string \<Rightarrow> string \<Rightarrow> bool \<Rightarrow> proc_state
     \<Rightarrow> (exn + SrlDevice) \<times> proc_state" where
  "SrlDevice_init net router' port' model' release' username' password' skip_verify' s =
     (let self = \<lparr>router = router', port = port', password = password', username = username',
                  skip_verify = skip_verify', model = model', release = release',
                  bgp_evpn = [], bgp_vpn = []\<rparr>
      in case get_bgp_evpn_info net self s of
           (Inl e, s1) \<Rightarrow> (Inl e, s1)
         | (Inr ev, s1) \<Rightarrow>
             (case get_bgp_vpn_info net (self\<lparr>bgp_evpn := ev\<rparr>) s1 of
                (Inl e, s2) \<Rightarrow> (Inl e, s2)
              | (Inr vp, s2) \<Rightarrow> (Inr (self\<lparr>bgp_evpn := ev, bgp_vpn := vp\<rparr>), s2)))"

section \<open>The join in \<^verbatim>\<open>main\<close>\<close>

text \<open>
  A Python dict with keys of any hashable value, as the list of its items in insertion
  order. Lists and dicts are unhashable. Two keys are the same key when they are equal in
  Python: \<^verbatim>\<open>True == 1\<close> and \<^verbatim>\<open>False == 0\<close>, and otherwise the values of this model
  are equal only to themselves; \<open>py_key\<close> gives equal keys the same image.
\<close>

fun hashable :: "pyval \<Rightarrow> bool" where
  "hashable (PList xs) = False"
| "hashable (PDict d) = False"
| "hashable _ = True"

fun py_key :: "pyval \<Rightarrow> pyval" where
  "py_key (PBool b) = PInt (if b then 1 else 0)"
| "py_key v = v"

text \<open>
  \<^verbatim>\<open>d[k] = v\<close> for a hashable \<open>k\<close>: a key already there keeps its place and its first
  spelling, and takes the new value; a new key goes to the end.
\<close>

fun dict_setitem :: "(pyval \<times> 'v) list \<Rightarrow> pyval \<Rightarrow> 'v \<Rightarrow> (pyval \<times> 'v) list" where
  "dict_setitem [] k v = [(k, v)]"
| "dict_setitem ((k', v') # d) k v =
     (if py_key k' = py_key k then (k', v) # d else (k', v') # dict_setitem d k v)"

fun dict_lookup :: "(pyval \<times> 'v) list \<Rightarrow> pyval \<Rightarrow> 'v option" where
  "dict_lookup [] k = None"
| "dict_lookup ((k', v') # d) k = (if py_key k' = py_key k then Some v' else dict_lookup d k)"

text \<open>\<^verbatim>\<open>k in d\<close> and \<^verbatim>\<open>d[k]\<close> for a dict \<open>d\<close>.\<close>

definition dict_contains :: "(pyval \<times> 'v) list \<Rightarrow> pyval \<Rightarrow> exn + bool" where
  "dict_contains d k = (if hashable k then Inr (dict_lookup d k \<noteq> None) else Inl TypeError)"

definition dict_getitem :: "(pyval \<times> 'v) list \<Rightarrow> pyval \<Rightarrow> exn + 'v" where
  "dict_getitem d k =
     (if hashable k
      then (case dict_lookup d k of None \<Rightarrow> Inl (KeyError k) | Some v \<Rightarrow> Inr v)
      else Inl TypeError)"

text \<open>\<^verbatim>\<open>{item.network_instance: item for item in items}\<close>, continued from the dict \<open>d\<close>.\<close>

fun dict_comprehension :: "('r \<Rightarrow> pyval) \<Rightarrow> 'r list \<Rightarrow> (pyval \<times> 'r) list \<Rightarrow> exn + (pyval \<times> 'r) list" where
  "dict_comprehension key [] d = Inr d"
| "dict_comprehension key (item # items) d =
     (if hashable (key item) then dict_comprehension key items (dict_setitem d (key item) item)
      else Inl TypeError)"

text \<open>One row of the report, in the order of its columns.\<close>

record joined_row =
  row_router :: string
  row_network_instance :: pyval
  row_id :: pyval
  row_admin_state :: pyval
  row_vxlan_interface :: pyval
  row_evi :: pyval
  row_ecmp :: pyval
  row_oper_state :: pyval
  row_rd :: pyval
  row_import_rt :: pyval
  row_export_rt :: pyval

definition make_row :: "string \<Rightarrow> pyval \<Rightarrow> BgpEvpn \<Rightarrow> BgpVpn \<Rightarrow> joined_row" where
  "make_row r key e v =
     \<lparr>row_router = r, row_network_instance = key, row_id = evpn_id e,
      row_admin_state = evpn_admin_state e, row_vxlan_interface = evpn_vxlan_interface e,
      row_evi = evpn_evi e, row_ecmp = evpn_ecmp e, row_oper_state = evpn_oper_state e,
      row_rd = vpn_rd v, row_import_rt = vpn_import_rt v, row_export_rt = vpn_export_rt v\<rparr>"

text \<open>\<^verbatim>\<open>for key in bgp_Evpn_dict.keys(): if key in bgp_Vpn_dict: rows.append([...])\<close>.\<close>

fun join_keys ::
  "string \<Rightarrow> pyval list \<Rightarrow> (pyval \<times> BgpEvpn) list \<Rightarrow> (pyval \<times> BgpVpn) list \<Rightarrow> joined_row list
     \<Rightarrow> exn + joined_row list" where
  "join_keys r [] bgp_Evpn_dict bgp_Vpn_dict rows = Inr rows"
| "join_keys r (key # keys) bgp_Evpn_dict bgp_Vpn_dict rows =
     (case dict_contains bgp_Vpn_dict key of
        Inl e \<Rightarrow> Inl e
      | Inr False \<Rightarrow> join_keys r keys bgp_Evpn_dict bgp_Vpn_dict rows
      | Inr True \<Rightarrow>
          bind_exn (dict_getitem bgp_Evpn_dict key) (\<lambda>e.
          bind_exn (dict_getitem bgp_Vpn_dict key) (\<lambda>v.
          join_keys r keys bgp_Evpn_dict bgp_Vpn_dict (rows @ [make_row r key e v]))))"

text \<open>
  The body of \<^verbatim>\<open>for device in srl_devices\<close>, from the record lists of the device: the two
  dicts, then the loop over the keys of the first.
\<close>

definition join :: "string \<Rightarrow> BgpEvpn list \<Rightarrow> BgpVpn list \<Rightarrow> joined_row list \<Rightarrow> exn + joined_row list" where
  "join r evpn vpn rows =
     bind_exn (dict_comprehension evpn_network_instance evpn []) (\<lambda>bgp_Evpn_dict.
     bind_exn (dict_comprehension vpn_network_instance vpn []) (\<lambda>bgp_Vpn_dict.
     join_keys r (map fst bgp_Evpn_dict) bgp_Evpn_dict bgp_Vpn_dict rows))"

fun join_devices :: "SrlDevice list \<Rightarrow> joined_row list \<Rightarrow> exn + joined_row list" where
  "join_devices [] rows = Inr rows"
| "join_devices (device # ds) rows =
     (case join (router device) (bgp_evpn device) (bgp_vpn device) rows of
        Inl e \<Rightarrow> Inl e
      | Inr rows' \<Rightarrow> join_devices ds rows')"

text \<open>
  \<^verbatim>\<open>for router in routers: srl_devices.append(SrlDevice(...))\<close>. Nothing catches an
  exception of the constructor.
\<close>

fun build_devices ::
  "network \<Rightarrow> string list \<Rightarrow> int \<Rightarrow> string \<Rightarrow> string \<Rightarrow> bool \<Rightarrow> SrlDevice list \<Rightarrow> proc_state
     \<Rightarrow> (exn + SrlDevice list) \<times> proc_state" where
  "build_devices net [] port' username' password' skip_verify' srl_devices s =
     (Inr srl_devices, s)"
| "build_devices net (r # routers) port' username' password' skip_verify' srl_devices s =
     (case SrlDevice_init net r port' DEFAULT_MODEL DEFAULT_RELEASE username' password'
             skip_verify' s of
        (Inl e, s') \<Rightarrow> (Inl e, s')
      | (Inr device, s') \<Rightarrow>
          build_devices net routers port' username' password' skip_verify'
            (srl_devices @ [device]) s')"

text \<open>
  \<^verbatim>\<open>main\<close> from the roster to the rows (the lines from \<^verbatim>\<open>srl_devices = []\<close> to the
  end of the loop that fills \<^verbatim>\<open>rows\<close>), given what the configuration file holds:
  the routers, the port, the credentials and the flag \<^verbatim>\<open>skip_verify\<close>. \<open>Inl e\<close> is
  the exception that leaves \<^verbatim>\<open>main\<close>.
\<close>

definition main ::
  "network \<Rightarrow> string list \<Rightarrow> int \<Rightarrow> string \<Rightarrow> string \<Rightarrow> bool \<Rightarrow> proc_state
     \<Rightarrow> (exn + joined_row list) \<times> proc_state" where
  "main net routers port' username' password' skip_verify' s =
     (case build_devices net routers port' username' password' skip_verify' [] s of
        (Inl e, s') \<Rightarrow> (Inl e, s')
      | (Inr srl_devices, s') \<Rightarrow> (join_devices srl_devices [], s'))"

section \<open>Notions used in the statements\<close>

text \<open>The session that \<^verbatim>\<open>_get_gnmi_info\<close> opens for a device.\<close>

definition self_session :: "SrlDevice \<Rightarrow> session" where
  "self_session self =
     \<lparr>target = (router self, port self), s_username = username self,
      s_password = password self, s_skip_verify = True\<rparr>"

text \<open>What an outcome leaves in \<^verbatim>\<open>result\<close>, and what the first \<^verbatim>\<open>try\<close> prints.\<close>

fun fetch_result :: "outcome \<Rightarrow> pyval" where
  "fetch_result (Failed e) = PNone"
| "fetch_result (Fetched v cl) = v"

fun fetch_lines :: "outcome \<Rightarrow> printed list" where
  "fetch_lines (Failed e) = [FailedToConnect e]"
| "fetch_lines (Fetched v None) = []"
| "fetch_lines (Fetched v (Some e)) = [FailedToConnect e]"

text \<open>What the second \<^verbatim>\<open>try\<close> collects and prints.\<close>

definition decoded :: "pyval \<Rightarrow> pyval list \<times> exn option" where
  "decoded result = (if result \<noteq> PNone then collect_result result else ([], None))"

fun report_lines :: "exn option \<Rightarrow> printed list" where
  "report_lines None = []"
| "report_lines (Some (KeyError k)) = [MissingKey (KeyError k)]"
| "report_lines (Some e) = [UnexpectedError e]"

text \<open>The device that \<^verbatim>\<open>main\<close> constructs for a router, with given record lists.\<close>

definition device_with ::
  "string \<Rightarrow> int \<Rightarrow> string \<Rightarrow> string \<Rightarrow> bool \<Rightarrow> BgpEvpn list \<Rightarrow> BgpVpn list \<Rightarrow> SrlDevice" where
  "device_with r port' username' password' skip_verify' ev vp =
     \<lparr>router = r, port = port', password = password', username = username',
      skip_verify = skip_verify', model = DEFAULT_MODEL, release = DEFAULT_RELEASE,
      bgp_evpn = ev, bgp_vpn = vp\<rparr>"

text \<open>
  The nested lookup as the specification words it: the value under \<open>k1\<close> then \<open>k2\<close>, and
  \<^verbatim>\<open>None\<close> when either level is absent.
\<close>

definition spec_nested_lookup :: "(string \<times> pyval) list \<Rightarrow> string \<Rightarrow> string \<Rightarrow> pyval" where
  "spec_nested_lookup b k1 k2 =
     (case map_of b k1 of
        None \<Rightarrow> PNone
      | Some (PDict d) \<Rightarrow> (case map_of d k2 of None \<Rightarrow> PNone | Some v \<Rightarrow> v)
      | Some _ \<Rightarrow> PNone)"

fun absent_or_dict :: "pyval option \<Rightarrow> bool" where
  "absent_or_dict None = True"
| "absent_or_dict (Some (PDict d)) = True"
| "absent_or_dict (Some _) = False"

text \<open>
  The parts of the decoding, each by itself: the updates that the loop over one notification
  visits, and the instances that one update adds to the list, or the exception that reading
  it raises. An update or a notification is readable when no part of it raises; the
  instances of a list of updates or of notifications are those of its readable members, in
  order.
\<close>

definition notification_updates :: "pyval \<Rightarrow> exn + pyval list" where
  "notification_updates notification = bind_exn (py_getitem notification ''update'') py_iter"

definition update_instances :: "pyval \<Rightarrow> exn + pyval list" where
  "update_instances update =
     (case py_getitem update ''val'' of
        Inl e \<Rightarrow> Inl e
      | Inr val \<Rightarrow>
          (case py_contains NI_KEY val of
             Inl e \<Rightarrow> Inl e
           | Inr False \<Rightarrow> Inr []
           | Inr True \<Rightarrow> bind_exn (py_getitem val NI_KEY) py_iter))"

definition readable_update :: "pyval \<Rightarrow> bool" where
  "readable_update update = (\<not> isl (update_instances update))"

definition instances_of_updates :: "pyval list \<Rightarrow> pyval list" where
  "instances_of_updates us =
     concat (map (\<lambda>u. case update_instances u of Inl e \<Rightarrow> [] | Inr xs \<Rightarrow> xs) us)"

definition readable_notification :: "pyval \<Rightarrow> bool" where
  "readable_notification notification =
     (case notification_updates notification of
        Inl e \<Rightarrow> False
      | Inr us \<Rightarrow> list_all readable_update us)"

definition instances_of_notifications :: "pyval list \<Rightarrow> pyval list" where
  "instances_of_notifications ns =
     concat (map (\<lambda>n. case notification_updates n of
                         Inl e \<Rightarrow> []
                       | Inr us \<Rightarrow> instances_of_updates us) ns)"

text \<open>
  The last record for a name, as the specification words it: the first record, reading the
  list from its end, whose name is the key \<open>k\<close>.
\<close>

definition spec_last_named :: "('r \<Rightarrow> pyval) \<Rightarrow> 'r list \<Rightarrow> pyval \<Rightarrow> 'r option" where
  "spec_last_named key items k = find (\<lambda>x. py_key (key x) = py_key k) (rev items)"

text \<open>The VPN record that the specification describes for a bgp-instance with the items \<open>b\<close>.\<close>

definition spec_vpn_record :: "pyval \<Rightarrow> pyval \<Rightarrow> (string \<times> pyval) list \<Rightarrow> BgpVpn" where
  "spec_vpn_record name i b =
     \<lparr>vpn_network_instance = name, vpn_id = i,
      vpn_rd = spec_nested_lookup b ''route-distinguisher'' ''rd'',
      vpn_export_rt = spec_nested_lookup b ''route-target'' ''export-rt'',
      vpn_import_rt = spec_nested_lookup b ''route-target'' ''import-rt''\<rparr>"

text \<open>
  For the proofs: the keys of a dict up to equality, the dict that a comprehension
  builds when no key is unhashable, and the rows that the loop over the keys appends.
\<close>

definition norm_keys :: "(pyval \<times> 'v) list \<Rightarrow> pyval list" where
  "norm_keys d = map (\<lambda>kv. py_key (fst kv)) d"

definition dict_from :: "('r \<Rightarrow> pyval) \<Rightarrow> 'r list \<Rightarrow> (pyval \<times> 'r) list \<Rightarrow> (pyval \<times> 'r) list" where
  "dict_from key items d = foldl (\<lambda>d x. dict_setitem d (key x) x) d items"

definition joined_rows :: "string \<Rightarrow> (pyval \<times> BgpEvpn) list \<Rightarrow> (pyval \<times> BgpVpn) list \<Rightarrow> joined_row list" where
  "joined_rows r evd vpd =
     concat (map (\<lambda>ke. case dict_lookup vpd (fst ke) of
                          None \<Rightarrow> []
                        | Some v \<Rightarrow> [make_row r (fst ke) (snd ke) v]) evd)"

text \<open>
  The fields that \<^verbatim>\<open>get_bgp_evpn_info\<close> subscripts in every bgp-instance, and the
  condition that one of them, or the name of the network instance, cannot be read.
\<close>

definition EVPN_REQUIRED :: "string list" where
  "EVPN_REQUIRED = [''id'', ''admin-state'', ''vxlan-interface'', ''evi'', ''ecmp'']"

definition lacks_required :: "pyval \<Rightarrow> pyval \<Rightarrow> bool" where
  "lacks_required network_instance bgp_instance =
     (isl (py_getitem network_instance ''name'') \<or>
      (\<exists>k\<in>set EVPN_REQUIRED. isl (py_getitem bgp_instance k)))"

subsection \<open>Example inputs\<close>

text \<open>A fresh process: the \<^verbatim>\<open>pygnmi\<close> logger at \<^verbatim>\<open>logging.NOTSET\<close>, nothing printed.\<close>

definition ex_state :: proc_state where
  "ex_state = \<lparr>pygnmi_level = 0, stdout = [], calls = []\<rparr>"

definition ex_unreachable :: network where
  "ex_unreachable = (\<lambda>sess gnmi_path n. Failed (TransportError ''unreachable''))"

definition ex_leaf1 :: SrlDevice where
  "ex_leaf1 = device_with ''leaf1'' 57400 ''admin'' ''secret'' False [] []"

definition ex_evpn_fields :: "(string \<times> pyval) list" where
  "ex_evpn_fields =
     [(''id'', PInt 1), (''admin-state'', PStr ''enable''), (''vxlan-interface'', PStr ''vxlan1.1''),
      (''evi'', PInt 10), (''ecmp'', PInt 2)]"

definition ex_evpn_instance :: "string \<Rightarrow> pyval list \<Rightarrow> pyval" where
  "ex_evpn_instance name bs =
     PDict [(''name'', PStr name),
            (''protocols'', PDict [(''bgp-evpn'',
               PDict [(''srl_nokia-bgp-evpn:bgp-instance'', PList bs)])])]"

definition ex_notification :: "pyval list \<Rightarrow> pyval" where
  "ex_notification nis = PDict [(''update'', PList [PDict [(''val'', PDict [(NI_KEY, PList nis)])]])]"

definition ex_answer :: "pyval list \<Rightarrow> pyval" where
  "ex_answer ns = PDict [(''notification'', PList ns)]"

definition ex_steady :: network where
  "ex_steady = (\<lambda>sess gnmi_path n.
     Fetched (ex_answer [ex_notification [ex_evpn_instance ''default'' [PDict ex_evpn_fields]]]) None)"

definition ex_truncated :: network where
  "ex_truncated = (\<lambda>sess gnmi_path n.
     Fetched (ex_answer [ex_notification [ex_evpn_instance ''default'' [PDict ex_evpn_fields]],
                         PDict [],
                         ex_notification [ex_evpn_instance ''mgmt'' [PDict ex_evpn_fields]]]) None)"

text \<open>
  An answer of one notification with three updates, the second of which has no \<^verbatim>\<open>val\<close>.
\<close>

definition ex_truncated_update :: network where
  "ex_truncated_update = (\<lambda>sess gnmi_path n.
     Fetched (ex_answer
       [PDict [(''update'',
          PList [PDict [(''val'', PDict [(NI_KEY,
                    PList [ex_evpn_instance ''default'' [PDict ex_evpn_fields]])])],
                 PDict [],
                 PDict [(''val'', PDict [(NI_KEY,
                    PList [ex_evpn_instance ''mgmt'' [PDict ex_evpn_fields]])])]])]]) None)"

text \<open>Records and trees of a network instance \<^verbatim>\<open>default\<close>.\<close>

definition ex_evpn_rec :: "string \<Rightarrow> int \<Rightarrow> BgpEvpn" where
  "ex_evpn_rec name i =
     \<lparr>evpn_network_instance = PStr name, evpn_id = PInt i, evpn_admin_state = PStr ''enable'',
      evpn_vxlan_interface = PStr ''vxlan1.1'', evpn_evi = PInt 10, evpn_ecmp = PInt 2,
      evpn_oper_state = PStr ''up''\<rparr>"

definition ex_vpn_rec :: "string \<Rightarrow> int \<Rightarrow> BgpVpn" where
  "ex_vpn_rec name i =
     \<lparr>vpn_network_instance = PStr name, vpn_id = PInt i, vpn_rd = PStr ''65000:1'',
      vpn_export_rt = PStr ''target:65000:1'', vpn_import_rt = PStr ''target:65000:2''\<rparr>"

definition ex_vpn_fields :: "(string \<times> pyval) list" where
  "ex_vpn_fields =
     [(''id'', PInt 1),
      (''route-target'', PDict [(''export-rt'', PStr ''target:65000:1''),
                                (''import-rt'', PStr ''target:65000:2'')])]"

definition ex_instance :: "string \<Rightarrow> pyval list \<Rightarrow> pyval list \<Rightarrow> pyval" where
  "ex_instance name evpn_bs vpn_bs =
     PDict [(''name'', PStr name),
            (''protocols'', PDict
               [(''bgp-evpn'', PDict [(''srl_nokia-bgp-evpn:bgp-instance'', PList evpn_bs)]),
                (''srl_nokia-bgp-vpn:bgp-vpn'', PDict [(''bgp-instance'', PList vpn_bs)])])]"

text \<open>
  A network of two routers: the EVPN bgp-instance of \<^verbatim>\<open>leaf1\<close> has no \<^verbatim>\<open>evi\<close>,
  every other router answers with a complete instance.
\<close>

definition ex_missing_evi :: network where
  "ex_missing_evi = (\<lambda>sess gnmi_path n.
     if fst (target sess) = ''leaf1''
     then Fetched (ex_answer [ex_notification
            [ex_instance ''default''
               [PDict [(''id'', PInt 1), (''admin-state'', PStr ''enable''),
                       (''vxlan-interface'', PStr ''vxlan1.1''), (''ecmp'', PInt 2)]]
               [PDict ex_vpn_fields]]]) None
     else Fetched (ex_answer [ex_notification
            [ex_instance ''default'' [PDict ex_evpn_fields] [PDict ex_vpn_fields]]]) None)"

section \<open>Properties\<close>

subsection \<open>The fetch\<close>

lemma report_processing_eq:
  "report_processing err s = s\<lparr>stdout := stdout s @ report_lines err\<rparr>"
  by (cases "(err, s)" rule: report_processing.cases) (simp_all add: py_print_def)

text \<open>
  The whole effect of one fetch: the list returned, and the state left, which differs from
  the state before in the logger level, the printed lines and the trace of calls.
\<close>

lemma get_gnmi_info_eq:
  "get_gnmi_info net self p s =
     (fst (decoded (fetch_result (net (self_session self) p (length (calls s))))),
      s\<lparr>pygnmi_level := LOGGING_LEVEL_WARNING,
        stdout := stdout s @ fetch_lines (net (self_session self) p (length (calls s)))
                  @ report_lines (snd (decoded (fetch_result
                      (net (self_session self) p (length (calls s)))))),
        calls := calls s @ [\<lparr>c_session = self_session self, c_path = p,
                            c_level = LOGGING_LEVEL_CRITICAL\<rparr>]\<rparr>)"
proof (cases "net (self_session self) p (length (calls s))")
  case (Failed e)
  then show ?thesis
    by (simp add: get_gnmi_info_def gc_get_def setLevel_def py_print_def self_session_def
        decoded_def)
next
  case (Fetched v cl)
  then show ?thesis
    by (cases cl)
       (simp_all add: get_gnmi_info_def gc_get_def setLevel_def py_print_def self_session_def
          decoded_def report_processing_eq split: prod.splits)
qed

lemma self_session_device_with [simp]:
  "self_session (device_with r port' username' password' skip_verify' ev vp) =
     \<lparr>target = (r, port'), s_username = username', s_password = password',
      s_skip_verify = True\<rparr>"
  by (simp add: self_session_def device_with_def)

text \<open>
  C6, at a device constructed with \<^verbatim>\<open>skip_verify=False\<close>: the session is opened for the
  device's router and port with the device's username and password, and with
  \<^verbatim>\<open>skip_verify=True\<close>, which is not the value the device holds.
\<close>

theorem session_skip_verify_fixed:
  "skip_verify (self\<lparr>skip_verify := False\<rparr>) = False \<and>
   c_session (last (calls (snd (get_gnmi_info net (self\<lparr>skip_verify := False\<rparr>) gnmi_path s)))) =
     \<lparr>target = (router self, port self), s_username = username self,
      s_password = password self, s_skip_verify = True\<rparr>"
  by (simp add: get_gnmi_info_eq self_session_def)

text \<open>
  C7, as stated, fails in a fresh process whose device is unreachable: the logger level was
  0 before the call and is 30 after it, and a line has been printed.
\<close>

theorem level_not_restored_counterexample:
  "pygnmi_level ex_state = 0 \<and>
   pygnmi_level (snd (get_gnmi_info ex_unreachable ex_leaf1 EVPN_PATH ex_state)) = 30 \<and>
   stdout (snd (get_gnmi_info ex_unreachable ex_leaf1 EVPN_PATH ex_state)) \<noteq> stdout ex_state"
  by (simp add: get_gnmi_info_eq ex_state_def ex_unreachable_def LOGGING_LEVEL_WARNING_def)

text \<open>
  C7, amended: whatever the level of the \<^verbatim>\<open>pygnmi\<close> logger before the call and whatever
  the outcome of the fetch, the session is opened with the level at \<^verbatim>\<open>CRITICAL\<close> and
  the call leaves the level at \<^verbatim>\<open>WARNING\<close>. Besides the level, the call adds one entry
  to the trace of sessions and appends to the output the lines of a failed fetch and of a
  failed decoding, and nothing else.
\<close>

theorem level_set_to_warning:
  "pygnmi_level (snd (get_gnmi_info net self gnmi_path s)) = LOGGING_LEVEL_WARNING \<and>
   calls (snd (get_gnmi_info net self gnmi_path s)) =
     calls s @ [\<lparr>c_session = self_session self, c_path = gnmi_path,
                 c_level = LOGGING_LEVEL_CRITICAL\<rparr>] \<and>
   stdout (snd (get_gnmi_info net self gnmi_path s)) =
     stdout s @ fetch_lines (net (self_session self) gnmi_path (length (calls s)))
       @ report_lines (snd (decoded (fetch_result
           (net (self_session self) gnmi_path (length (calls s))))))"
  by (simp add: get_gnmi_info_eq)

subsection \<open>The records\<close>

text \<open>
  C4: for a bgp-instance that is a dict with the five required fields, under a network
  instance with a name, the record is built, and its operational state is the literal
  \<^verbatim>\<open>"no state"\<close> when the key \<^verbatim>\<open>oper-state\<close> is absent and the value under that key
  otherwise.
\<close>

theorem oper_state_sentinel:
  assumes "py_getitem ni ''name'' = Inr a1"
    and "map_of b ''id'' = Some a2"
    and "map_of b ''admin-state'' = Some a3"
    and "map_of b ''vxlan-interface'' = Some a4"
    and "map_of b ''evi'' = Some a5"
    and "map_of b ''ecmp'' = Some a6"
  shows "make_evpn ni (PDict b) =
     Inr \<lparr>evpn_network_instance = a1, evpn_id = a2, evpn_admin_state = a3,
          evpn_vxlan_interface = a4, evpn_evi = a5, evpn_ecmp = a6,
          evpn_oper_state =
            (case map_of b ''oper-state'' of None \<Rightarrow> PStr ''no state'' | Some v \<Rightarrow> v)\<rparr>"
proof (cases "map_of b ''oper-state''")
  case None
  then have "''oper-state'' \<notin> fst ` set b" by (simp add: map_of_eq_None_iff)
  with assms None show ?thesis by (simp add: make_evpn_def)
next
  case (Some v)
  then have "''oper-state'' \<in> fst ` set b" by (metis map_of_eq_None_iff option.distinct(1))
  with assms Some show ?thesis by (simp add: make_evpn_def)
qed

theorem oper_state_sentinel_witness:
  "make_evpn (ex_evpn_instance ''default'' []) (PDict ex_evpn_fields) =
     Inr \<lparr>evpn_network_instance = PStr ''default'', evpn_id = PInt 1,
          evpn_admin_state = PStr ''enable'', evpn_vxlan_interface = PStr ''vxlan1.1'',
          evpn_evi = PInt 10, evpn_ecmp = PInt 2, evpn_oper_state = PStr ''no state''\<rparr> \<and>
   make_evpn (ex_evpn_instance ''default'' []) (PDict (ex_evpn_fields @ [(''oper-state'', PStr ''up'')])) =
     Inr \<lparr>evpn_network_instance = PStr ''default'', evpn_id = PInt 1,
          evpn_admin_state = PStr ''enable'', evpn_vxlan_interface = PStr ''vxlan1.1'',
          evpn_evi = PInt 10, evpn_ecmp = PInt 2, evpn_oper_state = PStr ''up''\<rparr>"
  using oper_state_sentinel [of "ex_evpn_instance ''default'' []" "PStr ''default''"
      ex_evpn_fields "PInt 1" "PStr ''enable''" "PStr ''vxlan1.1''" "PInt 10" "PInt 2"]
    oper_state_sentinel [of "ex_evpn_instance ''default'' []" "PStr ''default''"
      "ex_evpn_fields @ [(''oper-state'', PStr ''up'')]" "PInt 1" "PStr ''enable''"
      "PStr ''vxlan1.1''" "PInt 10" "PInt 2"]
  by (simp add: ex_evpn_instance_def ex_evpn_fields_def)

text \<open>
  C9: the records of a device are a function of the raw tree. Two runs of the extraction,
  from any two process states and for any two devices, in which the get returned the same
  tree, or in which the fetch returned the same list of instance trees, yield the same
  result, record for record or exception for exception; and the extraction leaves the
  process state as the fetch left it.
\<close>

theorem extraction_function_of_tree:
  "(fetch_result (net1 (self_session self1) EVPN_PATH (length (calls s1))) =
      fetch_result (net2 (self_session self2) EVPN_PATH (length (calls s2)))
      \<longrightarrow> fst (get_bgp_evpn_info net1 self1 s1) = fst (get_bgp_evpn_info net2 self2 s2)) \<and>
   (fetch_result (net1 (self_session self1) VPN_PATH (length (calls s1))) =
      fetch_result (net2 (self_session self2) VPN_PATH (length (calls s2)))
      \<longrightarrow> fst (get_bgp_vpn_info net1 self1 s1) = fst (get_bgp_vpn_info net2 self2 s2)) \<and>
   (fst (get_gnmi_info net1 self1 EVPN_PATH s1) = fst (get_gnmi_info net2 self2 EVPN_PATH s2)
      \<longrightarrow> fst (get_bgp_evpn_info net1 self1 s1) = fst (get_bgp_evpn_info net2 self2 s2)) \<and>
   (fst (get_gnmi_info net1 self1 VPN_PATH s1) = fst (get_gnmi_info net2 self2 VPN_PATH s2)
      \<longrightarrow> fst (get_bgp_vpn_info net1 self1 s1) = fst (get_bgp_vpn_info net2 self2 s2)) \<and>
   snd (get_bgp_evpn_info net1 self1 s1) = snd (get_gnmi_info net1 self1 EVPN_PATH s1) \<and>
   snd (get_bgp_vpn_info net1 self1 s1) = snd (get_gnmi_info net1 self1 VPN_PATH s1)"
proof (intro conjI impI)
  have evpn: "fst (get_bgp_evpn_info net self s) =
      evpn_instances (fst (get_gnmi_info net self EVPN_PATH s)) []" for net self s
    by (simp add: get_bgp_evpn_info_def case_prod_beta)
  have vpn: "fst (get_bgp_vpn_info net self s) =
      vpn_instances (fst (get_gnmi_info net self VPN_PATH s)) []" for net self s
    by (simp add: get_bgp_vpn_info_def case_prod_beta)
  have info: "fst (get_gnmi_info net self p s) =
      fst (decoded (fetch_result (net (self_session self) p (length (calls s)))))" for net self p s
    by (simp add: get_gnmi_info_eq)
  show "fst (get_bgp_evpn_info net1 self1 s1) = fst (get_bgp_evpn_info net2 self2 s2)"
    if "fetch_result (net1 (self_session self1) EVPN_PATH (length (calls s1))) =
      fetch_result (net2 (self_session self2) EVPN_PATH (length (calls s2)))"
    using that by (simp only: evpn info)
  show "fst (get_bgp_vpn_info net1 self1 s1) = fst (get_bgp_vpn_info net2 self2 s2)"
    if "fetch_result (net1 (self_session self1) VPN_PATH (length (calls s1))) =
      fetch_result (net2 (self_session self2) VPN_PATH (length (calls s2)))"
    using that by (simp only: vpn info)
  show "fst (get_bgp_evpn_info net1 self1 s1) = fst (get_bgp_evpn_info net2 self2 s2)"
    if "fst (get_gnmi_info net1 self1 EVPN_PATH s1) = fst (get_gnmi_info net2 self2 EVPN_PATH s2)"
    using that by (simp only: evpn)
  show "fst (get_bgp_vpn_info net1 self1 s1) = fst (get_bgp_vpn_info net2 self2 s2)"
    if "fst (get_gnmi_info net1 self1 VPN_PATH s1) = fst (get_gnmi_info net2 self2 VPN_PATH s2)"
    using that by (simp only: vpn)
  show "snd (get_bgp_evpn_info net1 self1 s1) = snd (get_gnmi_info net1 self1 EVPN_PATH s1)"
    by (simp add: get_bgp_evpn_info_def case_prod_beta)
  show "snd (get_bgp_vpn_info net1 self1 s1) = snd (get_gnmi_info net1 self1 VPN_PATH s1)"
    by (simp add: get_bgp_vpn_info_def case_prod_beta)
qed

theorem extraction_function_of_tree_witness:
  "fst (get_bgp_evpn_info ex_steady ex_leaf1 ex_state) =
     fst (get_bgp_evpn_info ex_steady ex_leaf1
            (snd (get_bgp_evpn_info ex_steady ex_leaf1 ex_state))) \<and>
   fst (get_bgp_vpn_info ex_steady ex_leaf1 ex_state) =
     fst (get_bgp_vpn_info ex_steady ex_leaf1
            (snd (get_bgp_evpn_info ex_steady ex_leaf1 ex_state))) \<and>
   fst (get_bgp_evpn_info ex_steady ex_leaf1 ex_state) =
     Inr [\<lparr>evpn_network_instance = PStr ''default'', evpn_id = PInt 1,
           evpn_admin_state = PStr ''enable'', evpn_vxlan_interface = PStr ''vxlan1.1'',
           evpn_evi = PInt 10, evpn_ecmp = PInt 2, evpn_oper_state = PStr ''no state''\<rparr>]"
proof -
  let ?s' = "snd (get_bgp_evpn_info ex_steady ex_leaf1 ex_state)"
  have res: "fetch_result (ex_steady (self_session ex_leaf1) p (length (calls ex_state))) =
      fetch_result (ex_steady (self_session ex_leaf1) p (length (calls ?s')))" for p
    by (simp add: ex_steady_def)
  have same: "fst (get_gnmi_info ex_steady ex_leaf1 p ex_state) =
      fst (get_gnmi_info ex_steady ex_leaf1 p ?s')" for p
    by (simp add: get_gnmi_info_eq ex_steady_def)
  note t = extraction_function_of_tree [of ex_steady ex_leaf1 ex_state ex_steady ex_leaf1 ?s']
  have a: "fst (get_bgp_evpn_info ex_steady ex_leaf1 ex_state) =
      fst (get_bgp_evpn_info ex_steady ex_leaf1 ?s')"
    using t res [of EVPN_PATH] same [of EVPN_PATH] by blast
  have b: "fst (get_bgp_vpn_info ex_steady ex_leaf1 ex_state) =
      fst (get_bgp_vpn_info ex_steady ex_leaf1 ?s')"
    using t res [of VPN_PATH] same [of VPN_PATH] by blast
  have c: "fst (get_bgp_evpn_info ex_steady ex_leaf1 ex_state) =
     Inr [\<lparr>evpn_network_instance = PStr ''default'', evpn_id = PInt 1,
           evpn_admin_state = PStr ''enable'', evpn_vxlan_interface = PStr ''vxlan1.1'',
           evpn_evi = PInt 10, evpn_ecmp = PInt 2, evpn_oper_state = PStr ''no state''\<rparr>]"
    by (simp add: get_bgp_evpn_info_def get_gnmi_info_eq decoded_def collect_result_def
        ex_steady_def ex_answer_def ex_notification_def ex_evpn_instance_def NI_KEY_def
        evpn_branch_def make_evpn_def ex_evpn_fields_def)
  from a b c show ?thesis by simp
qed

subsection \<open>Decoding of the answer\<close>

lemma collect_notifications_append:
  "collect_notifications (ns1 @ ns2) info =
     (case collect_notifications ns1 info of
        (info', Some e) \<Rightarrow> (info', Some e)
      | (info', None) \<Rightarrow> collect_notifications ns2 info')"
  by (induction ns1 arbitrary: info) (auto split: sum.splits prod.splits option.splits)

lemma collect_updates_step:
  "collect_updates (u # us) info =
     (case update_instances u of
        Inl e \<Rightarrow> (info, Some e)
      | Inr xs \<Rightarrow> collect_updates us (info @ xs))"
  by (simp add: update_instances_def split: sum.splits bool.splits)

lemma instances_of_updates_Cons:
  "update_instances u = Inr xs \<Longrightarrow> instances_of_updates (u # us) = xs @ instances_of_updates us"
  by (simp add: instances_of_updates_def)

lemma collect_updates_readable:
  "list_all readable_update us \<Longrightarrow>
   collect_updates us info = (info @ instances_of_updates us, None)"
proof (induction us arbitrary: info)
  case Nil
  show ?case by (simp add: instances_of_updates_def)
next
  case (Cons u us)
  from Cons.prems obtain xs where xs: "update_instances u = Inr xs"
    by (cases "update_instances u") (simp_all add: readable_update_def)
  from Cons.prems have rest: "list_all readable_update us" by simp
  have "collect_updates (u # us) info = collect_updates us (info @ xs)"
    using xs by (simp only: collect_updates_step sum.case)
  also have "\<dots> = ((info @ xs) @ instances_of_updates us, None)"
    using rest by (rule Cons.IH)
  finally show ?case using instances_of_updates_Cons [OF xs, of us] by simp
qed

lemma collect_updates_error:
  "list_all readable_update us1 \<Longrightarrow> update_instances u = Inl e \<Longrightarrow>
   collect_updates (us1 @ u # us2) info = (info @ instances_of_updates us1, Some e)"
proof (induction us1 arbitrary: info)
  case Nil
  then show ?case by (simp only: append_Nil collect_updates_step sum.case)
      (simp add: instances_of_updates_def)
next
  case (Cons u' us1)
  from Cons.prems(1) obtain xs where xs: "update_instances u' = Inr xs"
    by (cases "update_instances u'") (simp_all add: readable_update_def)
  from Cons.prems(1) have rest: "list_all readable_update us1" by simp
  have "collect_updates ((u' # us1) @ u # us2) info = collect_updates (us1 @ u # us2) (info @ xs)"
    using xs by (simp only: append_Cons collect_updates_step sum.case)
  also have "\<dots> = ((info @ xs) @ instances_of_updates us1, Some e)"
    using rest Cons.prems(2) by (rule Cons.IH)
  finally show ?case using instances_of_updates_Cons [OF xs, of us1] by simp
qed

lemma collect_notifications_step:
  "collect_notifications (n # ns) info =
     (case notification_updates n of
        Inl e \<Rightarrow> (info, Some e)
      | Inr us \<Rightarrow>
          (case collect_updates us info of
             (info', Some e) \<Rightarrow> (info', Some e)
           | (info', None) \<Rightarrow> collect_notifications ns info'))"
  by (simp add: notification_updates_def)

lemma collect_notifications_readable:
  "list_all readable_notification ns \<Longrightarrow>
   collect_notifications ns info = (info @ instances_of_notifications ns, None)"
proof (induction ns arbitrary: info)
  case Nil
  show ?case by (simp add: instances_of_notifications_def)
next
  case (Cons n ns)
  from Cons.prems obtain us where us: "notification_updates n = Inr us"
    and good: "list_all readable_update us"
    by (cases "notification_updates n") (simp_all add: readable_notification_def)
  from Cons.prems have rest: "list_all readable_notification ns" by simp
  have cu: "collect_updates us info = (info @ instances_of_updates us, None)"
    using good by (rule collect_updates_readable)
  have "collect_notifications (n # ns) info =
      collect_notifications ns (info @ instances_of_updates us)"
    using us cu by (simp only: collect_notifications_step sum.case prod.case option.case)
  also have "\<dots> = ((info @ instances_of_updates us) @ instances_of_notifications ns, None)"
    using rest by (rule Cons.IH)
  finally show ?case using us by (simp add: instances_of_notifications_def)
qed

lemma collect_notifications_bad:
  assumes good: "list_all readable_notification ns1"
  shows "notification_updates bad = Inl e \<Longrightarrow>
     collect_notifications (ns1 @ bad # ns2) [] = (instances_of_notifications ns1, Some e)"
    and "notification_updates bad = Inr (us1 @ u # us2) \<Longrightarrow> list_all readable_update us1 \<Longrightarrow>
     update_instances u = Inl e \<Longrightarrow>
     collect_notifications (ns1 @ bad # ns2) [] =
       (instances_of_notifications ns1 @ instances_of_updates us1, Some e)"
proof -
  have pre: "collect_notifications ns1 [] = (instances_of_notifications ns1, None)"
    using collect_notifications_readable [OF good, of "[]"] by simp
  show "collect_notifications (ns1 @ bad # ns2) [] = (instances_of_notifications ns1, Some e)"
    if "notification_updates bad = Inl e"
    using that pre
    by (simp only: collect_notifications_append prod.case option.case
        collect_notifications_step sum.case)
  show "collect_notifications (ns1 @ bad # ns2) [] =
       (instances_of_notifications ns1 @ instances_of_updates us1, Some e)"
    if "notification_updates bad = Inr (us1 @ u # us2)" "list_all readable_update us1"
      "update_instances u = Inl e"
  proof -
    have "collect_updates (us1 @ u # us2) (instances_of_notifications ns1) =
        (instances_of_notifications ns1 @ instances_of_updates us1, Some e)"
      using that(2,3) by (rule collect_updates_error)
    with that(1) pre show ?thesis
      by (simp only: collect_notifications_append prod.case option.case
          collect_notifications_step sum.case)
  qed
qed

text \<open>
  C10: let the get return an answer whose notifications are \<open>ns1\<close>, then \<open>bad\<close>, then
  \<open>ns2\<close>, where every notification of \<open>ns1\<close> is readable. If reading the updates of
  \<open>bad\<close> raises \<open>e\<close>, then \<^verbatim>\<open>_get_gnmi_info\<close> returns the instances of \<open>ns1\<close>. If
  the updates of \<open>bad\<close> are \<open>us1\<close>, then \<open>u\<close>, then \<open>us2\<close>, where every update of
  \<open>us1\<close> is readable and reading \<open>u\<close> raises \<open>e\<close>, then it returns the instances of
  \<open>ns1\<close> followed by those of \<open>us1\<close>. In both cases the instances collected before the
  error are returned, not the empty list, those after it are not read, and the only trace of
  the error is the line printed for \<open>e\<close>.
\<close>

theorem partial_info_kept:
  assumes fetched: "net (self_session self) gnmi_path (length (calls s)) = Fetched result cl"
    and notifs: "bind_exn (py_getitem result ''notification'') py_iter = Inr (ns1 @ bad # ns2)"
    and good: "list_all readable_notification ns1"
  shows "(\<forall>e. notification_updates bad = Inl e \<longrightarrow>
            fst (get_gnmi_info net self gnmi_path s) = instances_of_notifications ns1 \<and>
            stdout (snd (get_gnmi_info net self gnmi_path s)) =
              stdout s @ fetch_lines (Fetched result cl) @ report_lines (Some e)) \<and>
         (\<forall>us1 u us2 e.
            notification_updates bad = Inr (us1 @ u # us2) \<and> list_all readable_update us1 \<and>
            update_instances u = Inl e \<longrightarrow>
            fst (get_gnmi_info net self gnmi_path s) =
              instances_of_notifications ns1 @ instances_of_updates us1 \<and>
            stdout (snd (get_gnmi_info net self gnmi_path s)) =
              stdout s @ fetch_lines (Fetched result cl) @ report_lines (Some e))"
proof -
  have nonnull: "result \<noteq> PNone" using notifs by auto
  have dec: "decoded (fetch_result (net (self_session self) gnmi_path (length (calls s)))) =
      collect_notifications (ns1 @ bad # ns2) []"
    using fetched notifs nonnull by (simp add: decoded_def collect_result_def)
  have run: "fst (get_gnmi_info net self gnmi_path s) = info \<and>
      stdout (snd (get_gnmi_info net self gnmi_path s)) =
        stdout s @ fetch_lines (Fetched result cl) @ report_lines (Some e)"
    if "collect_notifications (ns1 @ bad # ns2) [] = (info, Some e)" for info e
    using that dec fetched by (simp add: get_gnmi_info_eq)
  show ?thesis
  proof (intro conjI allI impI)
    fix e
    assume "notification_updates bad = Inl e"
    then have "collect_notifications (ns1 @ bad # ns2) [] =
        (instances_of_notifications ns1, Some e)"
      by (rule collect_notifications_bad(1) [OF good])
    then have r: "fst (get_gnmi_info net self gnmi_path s) = instances_of_notifications ns1 \<and>
      stdout (snd (get_gnmi_info net self gnmi_path s)) =
        stdout s @ fetch_lines (Fetched result cl) @ report_lines (Some e)"
      by (rule run)
    from r show "fst (get_gnmi_info net self gnmi_path s) = instances_of_notifications ns1" ..
    from r show "stdout (snd (get_gnmi_info net self gnmi_path s)) =
        stdout s @ fetch_lines (Fetched result cl) @ report_lines (Some e)" ..
  next
    fix us1 u us2 e
    assume h: "notification_updates bad = Inr (us1 @ u # us2) \<and> list_all readable_update us1 \<and>
            update_instances u = Inl e"
    then have "collect_notifications (ns1 @ bad # ns2) [] =
        (instances_of_notifications ns1 @ instances_of_updates us1, Some e)"
      using collect_notifications_bad(2) [OF good, of bad us1 u us2 e ns2] by blast
    then have r: "fst (get_gnmi_info net self gnmi_path s) =
        instances_of_notifications ns1 @ instances_of_updates us1 \<and>
      stdout (snd (get_gnmi_info net self gnmi_path s)) =
        stdout s @ fetch_lines (Fetched result cl) @ report_lines (Some e)"
      by (rule run)
    from r show "fst (get_gnmi_info net self gnmi_path s) =
        instances_of_notifications ns1 @ instances_of_updates us1" ..
    from r show "stdout (snd (get_gnmi_info net self gnmi_path s)) =
        stdout s @ fetch_lines (Fetched result cl) @ report_lines (Some e)" ..
  qed
qed

theorem partial_info_kept_witness:
  "fst (get_gnmi_info ex_truncated ex_leaf1 EVPN_PATH ex_state) =
     [ex_evpn_instance ''default'' [PDict ex_evpn_fields]] \<and>
   stdout (snd (get_gnmi_info ex_truncated ex_leaf1 EVPN_PATH ex_state)) =
     [MissingKey (KeyError (PStr ''update''))] \<and>
   fst (get_gnmi_info ex_truncated_update ex_leaf1 EVPN_PATH ex_state) =
     [ex_evpn_instance ''default'' [PDict ex_evpn_fields]] \<and>
   stdout (snd (get_gnmi_info ex_truncated_update ex_leaf1 EVPN_PATH ex_state)) =
     [MissingKey (KeyError (PStr ''val''))]"
proof -
  let ?a = "ex_evpn_instance ''default'' [PDict ex_evpn_fields]"
  let ?m = "ex_evpn_instance ''mgmt'' [PDict ex_evpn_fields]"
  let ?ua = "PDict [(''val'', PDict [(NI_KEY, PList [?a])])]"
  let ?um = "PDict [(''val'', PDict [(NI_KEY, PList [?m])])]"
  let ?bad = "PDict [(''update'', PList [?ua, PDict [], ?um])]"
  have ua: "update_instances ?ua = Inr [?a]"
    by (simp add: update_instances_def NI_KEY_def)
  have 1: "ex_truncated (self_session ex_leaf1) EVPN_PATH (length (calls ex_state)) =
      Fetched (ex_answer ([ex_notification [?a]] @ PDict [] # [ex_notification [?m]])) None"
    by (simp add: ex_truncated_def)
  have 2: "bind_exn (py_getitem (ex_answer ([ex_notification [?a]] @ PDict [] # [ex_notification [?m]]))
      ''notification'') py_iter = Inr ([ex_notification [?a]] @ PDict [] # [ex_notification [?m]])"
    by (simp add: ex_answer_def)
  have 3: "list_all readable_notification [ex_notification [?a]]"
    using ua by (simp add: readable_notification_def notification_updates_def
        ex_notification_def readable_update_def)
  have 4: "notification_updates (PDict []) = Inl (KeyError (PStr ''update''))"
    by (simp add: notification_updates_def)
  have i1: "instances_of_notifications [ex_notification [?a]] = [?a]"
    using ua by (simp add: instances_of_notifications_def notification_updates_def
        ex_notification_def instances_of_updates_def)
  note t1 = partial_info_kept [where net = ex_truncated and self = ex_leaf1
      and gnmi_path = EVPN_PATH and s = ex_state, OF 1 2 3]
  from t1 4 have a: "fst (get_gnmi_info ex_truncated ex_leaf1 EVPN_PATH ex_state) =
      instances_of_notifications [ex_notification [?a]] \<and>
    stdout (snd (get_gnmi_info ex_truncated ex_leaf1 EVPN_PATH ex_state)) =
      stdout ex_state @ fetch_lines (Fetched (ex_answer ([ex_notification [?a]] @ PDict [] #
        [ex_notification [?m]])) None) @ report_lines (Some (KeyError (PStr ''update'')))"
    by blast
  have 5: "ex_truncated_update (self_session ex_leaf1) EVPN_PATH (length (calls ex_state)) =
      Fetched (ex_answer ([] @ ?bad # [])) None"
    by (simp add: ex_truncated_update_def)
  have 6: "bind_exn (py_getitem (ex_answer ([] @ ?bad # [])) ''notification'') py_iter =
      Inr ([] @ ?bad # [])"
    by (simp add: ex_answer_def)
  have 7: "list_all readable_notification []" by simp
  have 8: "notification_updates ?bad = Inr ([?ua] @ PDict [] # [?um]) \<and>
      list_all readable_update [?ua] \<and>
      update_instances (PDict []) = Inl (KeyError (PStr ''val''))"
    using ua by (simp add: notification_updates_def readable_update_def update_instances_def)
  have i2: "instances_of_notifications [] @ instances_of_updates [?ua] = [?a]"
    using ua by (simp add: instances_of_notifications_def instances_of_updates_def)
  note t2 = partial_info_kept [where net = ex_truncated_update and self = ex_leaf1
      and gnmi_path = EVPN_PATH and s = ex_state, OF 5 6 7]
  from t2 8 have b: "fst (get_gnmi_info ex_truncated_update ex_leaf1 EVPN_PATH ex_state) =
      instances_of_notifications [] @ instances_of_updates [?ua] \<and>
    stdout (snd (get_gnmi_info ex_truncated_update ex_leaf1 EVPN_PATH ex_state)) =
      stdout ex_state @ fetch_lines (Fetched (ex_answer ([] @ ?bad # [])) None) @
        report_lines (Some (KeyError (PStr ''val'')))"
    by blast
  from a b show ?thesis by (simp add: i1 i2 ex_state_def)
qed

subsection \<open>Failures of the fetch\<close>

lemma join_empty: "join r [] [] rows = Inr rows"
  by (simp add: join_def)

lemma join_devices_append:
  "join_devices (ds1 @ ds2) rows =
     (case join_devices ds1 rows of Inl e \<Rightarrow> Inl e | Inr rows' \<Rightarrow> join_devices ds2 rows')"
  by (induction ds1 arbitrary: rows) (simp_all split: sum.splits)

lemma device_with_fields [simp]:
  "router (device_with r port' username' password' skip_verify' ev vp) = r"
  "bgp_evpn (device_with r port' username' password' skip_verify' ev vp) = ev"
  "bgp_vpn (device_with r port' username' password' skip_verify' ev vp) = vp"
  by (simp_all add: device_with_def)

lemma self_session_bgp_evpn [simp]: "self_session (self\<lparr>bgp_evpn := ev\<rparr>) = self_session self"
  by (simp add: self_session_def)

lemma SrlDevice_init_eq:
  "SrlDevice_init net r port' DEFAULT_MODEL DEFAULT_RELEASE username' password' skip_verify' s =
     (case get_bgp_evpn_info net (device_with r port' username' password' skip_verify' [] []) s of
        (Inl e, s1) \<Rightarrow> (Inl e, s1)
      | (Inr ev, s1) \<Rightarrow>
          (case get_bgp_vpn_info net (device_with r port' username' password' skip_verify' ev []) s1 of
             (Inl e, s2) \<Rightarrow> (Inl e, s2)
           | (Inr vp, s2) \<Rightarrow> (Inr (device_with r port' username' password' skip_verify' ev vp), s2)))"
  by (simp add: SrlDevice_init_def device_with_def Let_def split: prod.splits sum.splits)

text \<open>
  C3: when opening the session or the get raises, \<^verbatim>\<open>_get_gnmi_info\<close> returns the empty
  list, having printed one line, and raises nothing. When both fetches of a router fail in
  this way, the constructor returns a device without records, the loop over the roster goes
  on with the remaining routers, and the device adds no row to the rows of the others.
\<close>

theorem fetch_failure_contained:
  "(net (self_session self) gnmi_path (length (calls s)) = Failed e \<longrightarrow>
      get_gnmi_info net self gnmi_path s =
        ([], s\<lparr>pygnmi_level := LOGGING_LEVEL_WARNING,
               stdout := stdout s @ [FailedToConnect e],
               calls := calls s @ [\<lparr>c_session = self_session self, c_path = gnmi_path,
                                   c_level = LOGGING_LEVEL_CRITICAL\<rparr>]\<rparr>)) \<and>
   (net (self_session (device_with r port' username' password' skip_verify' [] []))
        EVPN_PATH (length (calls s)) = Failed e1 \<and>
    net (self_session (device_with r port' username' password' skip_verify' [] []))
        VPN_PATH (Suc (length (calls s))) = Failed e2 \<longrightarrow>
      build_devices net (r # routers) port' username' password' skip_verify' srl_devices s =
        build_devices net routers port' username' password' skip_verify'
          (srl_devices @ [device_with r port' username' password' skip_verify' [] []])
          (s\<lparr>pygnmi_level := LOGGING_LEVEL_WARNING,
             stdout := stdout s @ [FailedToConnect e1, FailedToConnect e2],
             calls := calls s @
               [\<lparr>c_session = self_session (device_with r port' username' password' skip_verify' [] []),
                 c_path = EVPN_PATH, c_level = LOGGING_LEVEL_CRITICAL\<rparr>,
                \<lparr>c_session = self_session (device_with r port' username' password' skip_verify' [] []),
                 c_path = VPN_PATH, c_level = LOGGING_LEVEL_CRITICAL\<rparr>]\<rparr>)) \<and>
   join_devices (ds1 @ device_with r port' username' password' skip_verify' [] [] # ds2) rows =
     join_devices (ds1 @ ds2) rows"
proof (intro conjI impI)
  assume "net (self_session self) gnmi_path (length (calls s)) = Failed e"
  then show "get_gnmi_info net self gnmi_path s =
        ([], s\<lparr>pygnmi_level := LOGGING_LEVEL_WARNING,
               stdout := stdout s @ [FailedToConnect e],
               calls := calls s @ [\<lparr>c_session = self_session self, c_path = gnmi_path,
                                   c_level = LOGGING_LEVEL_CRITICAL\<rparr>]\<rparr>)"
    by (simp add: get_gnmi_info_eq decoded_def)
next
  let ?d = "device_with r port' username' password' skip_verify' [] []"
  assume both: "net (self_session ?d) EVPN_PATH (length (calls s)) = Failed e1 \<and>
    net (self_session ?d) VPN_PATH (Suc (length (calls s))) = Failed e2"
  have "SrlDevice_init net r port' DEFAULT_MODEL DEFAULT_RELEASE username' password' skip_verify' s =
      (Inr ?d, s\<lparr>pygnmi_level := LOGGING_LEVEL_WARNING,
             stdout := stdout s @ [FailedToConnect e1, FailedToConnect e2],
             calls := calls s @
               [\<lparr>c_session = self_session ?d, c_path = EVPN_PATH, c_level = LOGGING_LEVEL_CRITICAL\<rparr>,
                \<lparr>c_session = self_session ?d, c_path = VPN_PATH, c_level = LOGGING_LEVEL_CRITICAL\<rparr>]\<rparr>)"
    using both
    by (simp add: SrlDevice_init_eq get_bgp_evpn_info_def get_bgp_vpn_info_def
        get_gnmi_info_eq decoded_def)
  then show "build_devices net (r # routers) port' username' password' skip_verify' srl_devices s =
        build_devices net routers port' username' password' skip_verify'
          (srl_devices @ [?d])
          (s\<lparr>pygnmi_level := LOGGING_LEVEL_WARNING,
             stdout := stdout s @ [FailedToConnect e1, FailedToConnect e2],
             calls := calls s @
               [\<lparr>c_session = self_session ?d, c_path = EVPN_PATH, c_level = LOGGING_LEVEL_CRITICAL\<rparr>,
                \<lparr>c_session = self_session ?d, c_path = VPN_PATH, c_level = LOGGING_LEVEL_CRITICAL\<rparr>]\<rparr>)"
    by simp
next
  show "join_devices (ds1 @ device_with r port' username' password' skip_verify' [] [] # ds2) rows =
     join_devices (ds1 @ ds2) rows"
    by (simp add: join_devices_append join_empty split: sum.splits)
qed

theorem fetch_failure_contained_witness:
  "get_gnmi_info ex_unreachable ex_leaf1 EVPN_PATH ex_state =
     ([], \<lparr>pygnmi_level = 30, stdout = [FailedToConnect (TransportError ''unreachable'')],
           calls = [\<lparr>c_session = self_session ex_leaf1, c_path = EVPN_PATH, c_level = 50\<rparr>]\<rparr>) \<and>
   build_devices ex_unreachable [''leaf1''] 57400 ''admin'' ''secret'' False [] ex_state =
     (Inr [ex_leaf1],
      \<lparr>pygnmi_level = 30,
       stdout = [FailedToConnect (TransportError ''unreachable''),
                 FailedToConnect (TransportError ''unreachable'')],
       calls = [\<lparr>c_session = self_session ex_leaf1, c_path = EVPN_PATH, c_level = 50\<rparr>,
                \<lparr>c_session = self_session ex_leaf1, c_path = VPN_PATH, c_level = 50\<rparr>]\<rparr>) \<and>
   join_devices [ex_leaf1] [] = Inr []"
  using fetch_failure_contained [of ex_unreachable ex_leaf1 EVPN_PATH ex_state
      "TransportError ''unreachable''" "''leaf1''" 57400 "''admin''" "''secret''" False
      "TransportError ''unreachable''" "TransportError ''unreachable''" "[]" "[]" "[]" "[]" "[]"]
  by (simp add: ex_unreachable_def ex_state_def ex_leaf1_def LOGGING_LEVEL_WARNING_def
      LOGGING_LEVEL_CRITICAL_def)

subsection \<open>The dicts of the join\<close>

lemma bind_exn_Inr: "bind_exn m f = Inr y \<longleftrightarrow> (\<exists>x. m = Inr x \<and> f x = Inr y)"
  by (cases m) simp_all

lemma dict_lookup_setitem:
  "dict_lookup (dict_setitem d k v) k' =
     (if py_key k = py_key k' then Some v else dict_lookup d k')"
  by (induction d) auto

lemma dict_lookup_cong: "py_key k = py_key k' \<Longrightarrow> dict_lookup d k = dict_lookup d k'"
  by (induction d) auto

lemma norm_keys_simps [simp]:
  "norm_keys [] = []"
  "norm_keys (kv # d) = py_key (fst kv) # norm_keys d"
  by (simp_all add: norm_keys_def)

lemma length_norm_keys [simp]: "length (norm_keys d) = length d"
  by (simp add: norm_keys_def)

lemma dict_lookup_None_iff: "dict_lookup d k = None \<longleftrightarrow> py_key k \<notin> set (norm_keys d)"
proof (induction d)
  case Nil
  show ?case by simp
next
  case (Cons kv d)
  obtain k' v' where kv: "kv = (k', v')" by (cases kv)
  show ?case
  proof (cases "py_key k' = py_key k")
    case True
    with kv show ?thesis by simp
  next
    case False
    then have "py_key k \<noteq> py_key k'" by simp
    with kv False Cons.IH show ?thesis by simp
  qed
qed

lemma norm_keys_setitem:
  "norm_keys (dict_setitem d k v) =
     (if py_key k \<in> set (norm_keys d) then norm_keys d else norm_keys d @ [py_key k])"
proof (induction d)
  case Nil
  show ?case by simp
next
  case (Cons kv d)
  obtain k' v' where kv: "kv = (k', v')" by (cases kv)
  show ?case
  proof (cases "py_key k' = py_key k")
    case True
    with kv show ?thesis by simp
  next
    case False
    then have "py_key k \<noteq> py_key k'" by simp
    with kv False Cons.IH show ?thesis by simp
  qed
qed

lemma fst_setitem: "k' \<in> fst ` set (dict_setitem d k v) \<Longrightarrow> k' = k \<or> k' \<in> fst ` set d"
proof (induction d)
  case Nil
  then show ?case by simp
next
  case (Cons kv d)
  obtain k0 v0 where kv: "kv = (k0, v0)" by (cases kv)
  show ?case
  proof (cases "py_key k0 = py_key k")
    case True
    with kv Cons.prems show ?thesis by auto
  next
    case False
    with kv Cons.prems have "k' = k0 \<or> k' \<in> fst ` set (dict_setitem d k v)" by auto
    with Cons.IH kv show ?thesis by auto
  qed
qed

lemma norm_keys_mem: "(k, v) \<in> set d \<Longrightarrow> py_key k \<in> set (norm_keys d)"
  by (induction d) auto

lemma dict_lookup_item:
  "distinct (norm_keys d) \<Longrightarrow> (k, v) \<in> set d \<Longrightarrow> dict_lookup d k = Some v"
proof (induction d)
  case Nil
  then show ?case by simp
next
  case (Cons kv d)
  obtain k0 v0 where kv: "kv = (k0, v0)" by (cases kv)
  show ?case
  proof (cases "(k, v) = kv")
    case True
    with kv show ?thesis by simp
  next
    case False
    with Cons.prems have mem: "(k, v) \<in> set d" by simp
    then have "py_key k \<in> set (norm_keys d)" by (rule norm_keys_mem)
    with Cons.prems kv have "py_key k0 \<noteq> py_key k" by auto
    moreover have "dict_lookup d k = Some v" using Cons.IH Cons.prems mem by simp
    ultimately show ?thesis using kv by simp
  qed
qed

lemma dict_lookup_Some_item:
  "dict_lookup d k = Some v \<Longrightarrow> \<exists>k'. (k', v) \<in> set d \<and> py_key k' = py_key k"
proof (induction d)
  case Nil
  then show ?case by simp
next
  case (Cons kv d)
  obtain k0 v0 where kv: "kv = (k0, v0)" by (cases kv)
  show ?case
  proof (cases "py_key k0 = py_key k")
    case True
    with kv Cons.prems show ?thesis by auto
  next
    case False
    with kv Cons.prems have "dict_lookup d k = Some v" by simp
    then obtain k' where "(k', v) \<in> set d" "py_key k' = py_key k" using Cons.IH by blast
    then show ?thesis by auto
  qed
qed

lemma dict_comprehension_from:
  "\<forall>x\<in>set items. hashable (key x) \<Longrightarrow> dict_comprehension key items d = Inr (dict_from key items d)"
  by (induction items arbitrary: d) (simp_all add: dict_from_def)

lemma dict_from_distinct:
  "distinct (norm_keys d) \<Longrightarrow> distinct (norm_keys (dict_from key items d))"
  by (induction items arbitrary: d) (simp_all add: dict_from_def norm_keys_setitem)

lemma dict_from_length: "length (dict_from key items d) \<le> length d + length items"
proof (induction items arbitrary: d)
  case Nil
  then show ?case by (simp add: dict_from_def)
next
  case (Cons x xs)
  have "length (dict_setitem d (key x) x) \<le> Suc (length d)"
    using length_norm_keys [of "dict_setitem d (key x) x"] length_norm_keys [of d]
    by (simp add: norm_keys_setitem split: if_splits del: length_norm_keys)
  moreover have "length (dict_from key xs (dict_setitem d (key x) x))
      \<le> length (dict_setitem d (key x) x) + length xs"
    by (rule Cons.IH)
  ultimately show ?case by (simp add: dict_from_def)
qed

lemma find_snoc:
  "find P (xs @ [x]) = (case find P xs of Some y \<Rightarrow> Some y | None \<Rightarrow> if P x then Some x else None)"
  by (induction xs) auto

lemma dict_from_lookup:
  "dict_lookup (dict_from key items d) k =
     (case spec_last_named key items k of Some x \<Rightarrow> Some x | None \<Rightarrow> dict_lookup d k)"
proof (induction items arbitrary: d)
  case Nil
  then show ?case by (simp add: dict_from_def spec_last_named_def)
next
  case (Cons x xs)
  have "dict_lookup (dict_from key (x # xs) d) k =
      dict_lookup (dict_from key xs (dict_setitem d (key x) x)) k"
    by (simp add: dict_from_def)
  also have "\<dots> = (case spec_last_named key xs k of Some y \<Rightarrow> Some y
      | None \<Rightarrow> dict_lookup (dict_setitem d (key x) x) k)"
    by (rule Cons.IH)
  finally show ?case
    by (simp add: spec_last_named_def find_snoc dict_lookup_setitem split: option.splits)
qed

lemma dict_from_Cons: "dict_from key (x # xs) d = dict_from key xs (dict_setitem d (key x) x)"
  by (simp add: dict_from_def)

lemma dict_from_hashable:
  assumes "\<And>x. x \<in> set items \<Longrightarrow> hashable (key x)"
    and "\<And>k. k \<in> fst ` set d \<Longrightarrow> hashable k"
    and "k \<in> fst ` set (dict_from key items d)"
  shows "hashable k"
  using assms
proof (induction items arbitrary: d)
  case Nil
  then show ?case by (simp add: dict_from_def)
next
  case (Cons x xs)
  have keyx: "hashable (key x)" using Cons.prems(1) by simp
  have step: "hashable k'" if "k' \<in> fst ` set (dict_setitem d (key x) x)" for k'
  proof -
    from that have "k' = key x \<or> k' \<in> fst ` set d" by (rule fst_setitem)
    then show ?thesis using keyx Cons.prems(2) by blast
  qed
  have mem: "k \<in> fst ` set (dict_from key xs (dict_setitem d (key x) x))"
    using Cons.prems(3) by (simp only: dict_from_Cons)
  have tail: "hashable (key y)" if "y \<in> set xs" for y
    using that Cons.prems(1) by simp
  show ?case by (rule Cons.IH [OF tail step mem])
qed

subsection \<open>The loop over the keys\<close>

lemma dict_contains_iff:
  "hashable k \<Longrightarrow> dict_contains d k = Inr (dict_lookup d k \<noteq> None)"
  by (simp add: dict_contains_def)

lemma join_keys_items:
  assumes "\<And>k e. (k, e) \<in> set its \<Longrightarrow> hashable k \<and> dict_lookup evd k = Some e"
  shows "join_keys r (map fst its) evd vpd rows = Inr (rows @ joined_rows r its vpd)"
  using assms
proof (induction its arbitrary: rows)
  case Nil
  then show ?case by (simp add: joined_rows_def)
next
  case (Cons ke its)
  obtain k e where ke: "ke = (k, e)" by (cases ke)
  have hk: "hashable k" and lk: "dict_lookup evd k = Some e"
    using Cons.prems [of k e] ke by simp_all
  have "hashable k' \<and> dict_lookup evd k' = Some e'" if "(k', e') \<in> set its" for k' e'
    using that Cons.prems [of k' e'] by simp
  then have tail: "join_keys r (map fst its) evd vpd rows' = Inr (rows' @ joined_rows r its vpd)"
    for rows'
    by (rule Cons.IH)
  show ?case
  proof (cases "dict_lookup vpd k")
    case None
    with ke hk tail show ?thesis
      by (simp add: dict_contains_def joined_rows_def)
  next
    case (Some v)
    with ke hk lk tail show ?thesis
      by (simp add: dict_contains_def dict_getitem_def joined_rows_def)
  qed
qed

lemma joined_rows_length: "length (joined_rows r evd vpd) \<le> length evd"
  by (induction evd) (simp_all add: joined_rows_def split: option.splits)

lemma joined_rows_names:
  "map (\<lambda>row. py_key (row_network_instance row)) (joined_rows r evd vpd) =
     filter (\<lambda>k. k \<in> set (norm_keys vpd)) (norm_keys evd)"
proof (induction evd)
  case Nil
  show ?case by (simp add: joined_rows_def)
next
  case (Cons ke evd)
  have tail: "map (\<lambda>row. py_key (row_network_instance row))
       (concat (map (\<lambda>ke. case dict_lookup vpd (fst ke) of None \<Rightarrow> []
          | Some v \<Rightarrow> [make_row r (fst ke) (snd ke) v]) evd)) =
     filter (\<lambda>k. k \<in> set (norm_keys vpd)) (norm_keys evd)"
    using Cons.IH by (simp add: joined_rows_def)
  show ?case
  proof (cases "dict_lookup vpd (fst ke)")
    case None
    then have "py_key (fst ke) \<notin> set (norm_keys vpd)" by (simp add: dict_lookup_None_iff)
    with None tail show ?thesis by (simp add: joined_rows_def)
  next
    case (Some v)
    then have "py_key (fst ke) \<in> set (norm_keys vpd)"
      using dict_lookup_None_iff [of vpd "fst ke"] by simp
    with Some tail show ?thesis by (simp add: joined_rows_def make_row_def)
  qed
qed

lemma joined_rows_mem:
  "row \<in> set (joined_rows r evd vpd) \<longleftrightarrow>
     (\<exists>k e v. (k, e) \<in> set evd \<and> dict_lookup vpd k = Some v \<and> row = make_row r k e v)"
proof (induction evd)
  case Nil
  show ?case by (simp add: joined_rows_def)
next
  case (Cons ke evd)
  obtain k0 e0 where ke: "ke = (k0, e0)" by (cases ke)
  have split: "joined_rows r (ke # evd) vpd =
      (case dict_lookup vpd k0 of None \<Rightarrow> [] | Some v \<Rightarrow> [make_row r k0 e0 v])
        @ joined_rows r evd vpd"
    using ke by (simp add: joined_rows_def split: option.splits)
  show ?case
  proof (cases "dict_lookup vpd k0")
    case None
    with split Cons.IH ke show ?thesis by auto
  next
    case (Some v0)
    with split Cons.IH ke show ?thesis by auto
  qed
qed

lemma distinct_subset_length:
  assumes "distinct xs" and "set xs \<subseteq> set ys"
  shows "length xs \<le> length ys"
proof -
  have "length xs = card (set xs)" using assms(1) by (simp add: distinct_card)
  also have "\<dots> \<le> card (set ys)" using assms(2) by (simp add: card_mono)
  also have "\<dots> \<le> length ys" by (rule card_length)
  finally show ?thesis .
qed

lemma make_row_fields [simp]:
  "row_network_instance (make_row r k e v) = k"
  "row_rd (make_row r k e v) = vpn_rd v"
  "row_import_rt (make_row r k e v) = vpn_import_rt v"
  "row_export_rt (make_row r k e v) = vpn_export_rt v"
  by (simp_all add: make_row_def)

lemma join_eq:
  assumes he: "\<And>e. e \<in> set evpn \<Longrightarrow> hashable (evpn_network_instance e)"
    and hv: "\<And>v. v \<in> set vpn \<Longrightarrow> hashable (vpn_network_instance v)"
  shows "dict_comprehension evpn_network_instance evpn [] =
           Inr (dict_from evpn_network_instance evpn [])"
    and "dict_comprehension vpn_network_instance vpn [] =
           Inr (dict_from vpn_network_instance vpn [])"
    and "join r evpn vpn rows =
           Inr (rows @ joined_rows r (dict_from evpn_network_instance evpn [])
                         (dict_from vpn_network_instance vpn []))"
proof -
  let ?evd = "dict_from evpn_network_instance evpn []"
  let ?vpd = "dict_from vpn_network_instance vpn []"
  show 1: "dict_comprehension evpn_network_instance evpn [] = Inr ?evd"
    using he by (simp add: dict_comprehension_from)
  show 2: "dict_comprehension vpn_network_instance vpn [] = Inr ?vpd"
    using hv by (simp add: dict_comprehension_from)
  have dist: "distinct (norm_keys ?evd)" by (rule dict_from_distinct) simp
  have "hashable k \<and> dict_lookup ?evd k = Some e" if "(k, e) \<in> set ?evd" for k e
  proof
    have "k \<in> fst ` set ?evd" using that by (metis fst_conv image_eqI)
    then show "hashable k" using he by (rule dict_from_hashable [rotated 2]) simp_all
    show "dict_lookup ?evd k = Some e" using dist that by (rule dict_lookup_item)
  qed
  then have "join_keys r (map fst ?evd) ?evd ?vpd rows = Inr (rows @ joined_rows r ?evd ?vpd)"
    by (rule join_keys_items)
  with 1 2 show "join r evpn vpn rows = Inr (rows @ joined_rows r ?evd ?vpd)"
    by (simp add: join_def)
qed

lemma dict_comprehension_Inr:
  "dict_comprehension key items d = Inr d' \<Longrightarrow> x \<in> set items \<Longrightarrow> hashable (key x)"
proof (induction items arbitrary: d)
  case Nil
  then show ?case by simp
next
  case (Cons y ys)
  from Cons.prems(1) have hy: "hashable (key y)"
    by (cases "hashable (key y)") simp_all
  with Cons.prems(1) have rest: "dict_comprehension key ys (dict_setitem d (key y) y) = Inr d'"
    by simp
  show ?case
  proof (cases "x = y")
    case True
    with hy show ?thesis by simp
  next
    case False
    with Cons.prems(2) have "x \<in> set ys" by simp
    with rest show ?thesis by (rule Cons.IH)
  qed
qed

lemma join_Inr:
  assumes "join r evpn vpn rows = Inr rows'"
  shows "e \<in> set evpn \<Longrightarrow> hashable (evpn_network_instance e)"
    and "v \<in> set vpn \<Longrightarrow> hashable (vpn_network_instance v)"
proof -
  from assms obtain evd vpd
    where 1: "dict_comprehension evpn_network_instance evpn [] = Inr evd"
      and 2: "dict_comprehension vpn_network_instance vpn [] = Inr vpd"
    unfolding join_def bind_exn_Inr by blast
  show "e \<in> set evpn \<Longrightarrow> hashable (evpn_network_instance e)"
    using 1 by (rule dict_comprehension_Inr)
  show "v \<in> set vpn \<Longrightarrow> hashable (vpn_network_instance v)"
    using 2 by (rule dict_comprehension_Inr)
qed

lemma join_scenario:
  "join ''leaf1'' [ex_evpn_rec ''default'' 1, ex_evpn_rec ''mgmt'' 1]
       [ex_vpn_rec ''default'' 1, ex_vpn_rec ''vrf1'' 1] [] =
     Inr [make_row ''leaf1'' (PStr ''default'') (ex_evpn_rec ''default'' 1) (ex_vpn_rec ''default'' 1)]"
  by (simp add: join_def ex_evpn_rec_def ex_vpn_rec_def dict_contains_def dict_getitem_def)

lemma dict_from_keys_hashable:
  assumes "\<And>x. x \<in> set items \<Longrightarrow> hashable (key x)" and "(k, v) \<in> set (dict_from key items [])"
  shows "hashable k"
proof -
  have "k \<in> fst ` set (dict_from key items [])" using assms(2) by (metis fst_conv image_eqI)
  then show ?thesis using assms(1) by (rule dict_from_hashable [rotated 2]) simp_all
qed

lemma joined_distinct:
  "distinct (map (\<lambda>row. py_key (row_network_instance row))
     (joined_rows r (dict_from key1 xs []) vpd))"
proof -
  have "distinct (norm_keys (dict_from key1 xs []))" by (rule dict_from_distinct) simp
  then show ?thesis by (simp only: joined_rows_names distinct_filter)
qed

lemma joined_length_left:
  "length (joined_rows r (dict_from key1 xs []) vpd) \<le> length xs"
proof -
  have "length (joined_rows r (dict_from key1 xs []) vpd) \<le> length (dict_from key1 xs [])"
    by (rule joined_rows_length)
  also have "\<dots> \<le> length xs" using dict_from_length [of key1 xs "[]"] by simp
  finally show ?thesis .
qed

lemma joined_length_right:
  "length (joined_rows r (dict_from key1 xs []) (dict_from key2 ys [])) \<le> length ys"
proof -
  let ?joined = "joined_rows r (dict_from key1 xs []) (dict_from key2 ys [])"
  let ?names = "map (\<lambda>row. py_key (row_network_instance row)) ?joined"
  have dist: "distinct ?names" by (rule joined_distinct)
  have "set ?names \<subseteq> set (norm_keys (dict_from key2 ys []))"
    unfolding joined_rows_names by (rule subsetI) simp
  with dist have "length ?names \<le> length (norm_keys (dict_from key2 ys []))"
    by (rule distinct_subset_length)
  then have "length ?joined \<le> length (dict_from key2 ys [])" by simp
  also have "\<dots> \<le> length ys" using dict_from_length [of key2 ys "[]"] by simp
  finally show ?thesis .
qed

lemma joined_sound:
  assumes he: "\<And>e. e \<in> set evpn \<Longrightarrow> hashable (evpn_network_instance e)"
    and row: "row \<in> set (joined_rows r (dict_from evpn_network_instance evpn []) vpd)"
  shows "dict_contains (dict_from evpn_network_instance evpn []) (row_network_instance row) = Inr True"
    and "dict_contains vpd (row_network_instance row) = Inr True"
    and "\<exists>e v. dict_lookup (dict_from evpn_network_instance evpn []) (row_network_instance row) = Some e \<and>
           dict_lookup vpd (row_network_instance row) = Some v \<and>
           row = make_row r (row_network_instance row) e v"
proof -
  let ?evd = "dict_from evpn_network_instance evpn []"
  from row obtain k e v where ke: "(k, e) \<in> set ?evd" and kv: "dict_lookup vpd k = Some v"
    and eq: "row = make_row r k e v"
    unfolding joined_rows_mem by blast
  have hk: "hashable k" using he ke by (rule dict_from_keys_hashable)
  have dist_e: "distinct (norm_keys ?evd)" by (rule dict_from_distinct) simp
  have le: "dict_lookup ?evd k = Some e" using dist_e ke by (rule dict_lookup_item)
  have name: "row_network_instance row = k" using eq by simp
  show "dict_contains ?evd (row_network_instance row) = Inr True"
    using hk le by (simp add: name dict_contains_def)
  show "dict_contains vpd (row_network_instance row) = Inr True"
    using hk kv by (simp add: name dict_contains_def)
  show "\<exists>e v. dict_lookup ?evd (row_network_instance row) = Some e \<and>
           dict_lookup vpd (row_network_instance row) = Some v \<and>
           row = make_row r (row_network_instance row) e v"
    using le kv eq unfolding name by blast
qed

lemma joined_complete:
  assumes "dict_lookup evd k = Some e" and "dict_lookup vpd k = Some v"
  shows "\<exists>row\<in>set (joined_rows r evd vpd).
           py_key (row_network_instance row) = py_key k \<and>
           row = make_row r (row_network_instance row) e v"
proof -
  obtain k' where ke: "(k', e) \<in> set evd" and k': "py_key k' = py_key k"
    using dict_lookup_Some_item [OF assms(1)] by blast
  have "dict_lookup vpd k' = Some v" using assms(2) dict_lookup_cong [OF k', of vpd] by simp
  with ke have mem: "make_row r k' e v \<in> set (joined_rows r evd vpd)"
    unfolding joined_rows_mem by blast
  have "py_key (row_network_instance (make_row r k' e v)) = py_key k \<and>
      make_row r k' e v = make_row r (row_network_instance (make_row r k' e v)) e v"
    using k' by simp
  with mem show ?thesis by (rule rev_bexI)
qed

lemma dict_contains_True:
  "dict_contains d k = Inr True \<Longrightarrow> \<exists>v. dict_lookup d k = Some v"
  by (cases "hashable k") (auto simp: dict_contains_def)

lemma dict_from_lookup_empty:
  "dict_lookup (dict_from key items []) k = spec_last_named key items k"
  by (simp add: dict_from_lookup split: option.splits)

text \<open>
  C1: the join returns, for record lists whose instance names are hashable (strings, numbers,
  booleans or \<^verbatim>\<open>None\<close>, as in every well-formed answer). Whenever it returns, for any
  record lists, it has appended rows \<open>joined\<close> to the rows so far, where: there are at
  most \<open>min |evpn| |vpn|\<close> of them; the instance name of every row is a key of the
  EVPN dict and of the VPN dict; no two rows have the same instance name; and every key of
  both dicts has its row. So the rows are exactly the names present in both dicts, once each.
\<close>

theorem inner_join:
  "((\<forall>e\<in>set evpn. hashable (evpn_network_instance e)) \<and>
    (\<forall>v\<in>set vpn. hashable (vpn_network_instance v))
      \<longrightarrow> (\<exists>rows'. join r evpn vpn rows = Inr rows')) \<and>
   (\<forall>rows'. join r evpn vpn rows = Inr rows' \<longrightarrow>
      (\<exists>bgp_Evpn_dict bgp_Vpn_dict joined.
         dict_comprehension evpn_network_instance evpn [] = Inr bgp_Evpn_dict \<and>
         dict_comprehension vpn_network_instance vpn [] = Inr bgp_Vpn_dict \<and>
         rows' = rows @ joined \<and>
         length joined \<le> min (length evpn) (length vpn) \<and>
         (\<forall>row\<in>set joined.
            dict_contains bgp_Evpn_dict (row_network_instance row) = Inr True \<and>
            dict_contains bgp_Vpn_dict (row_network_instance row) = Inr True) \<and>
         distinct (map (\<lambda>row. py_key (row_network_instance row)) joined) \<and>
         (\<forall>k. dict_contains bgp_Evpn_dict k = Inr True \<and> dict_contains bgp_Vpn_dict k = Inr True
            \<longrightarrow> (\<exists>row\<in>set joined. py_key (row_network_instance row) = py_key k))))"
proof (intro conjI allI impI)
  let ?evd = "dict_from evpn_network_instance evpn []"
  let ?vpd = "dict_from vpn_network_instance vpn []"
  let ?joined = "joined_rows r ?evd ?vpd"
  assume h: "(\<forall>e\<in>set evpn. hashable (evpn_network_instance e)) \<and>
    (\<forall>v\<in>set vpn. hashable (vpn_network_instance v))"
  have "join r evpn vpn rows = Inr (rows @ ?joined)"
    by (rule join_eq(3)) (use h in blast)+
  then show "\<exists>rows'. join r evpn vpn rows = Inr rows'" ..
next
  fix rows'
  let ?evd = "dict_from evpn_network_instance evpn []"
  let ?vpd = "dict_from vpn_network_instance vpn []"
  let ?joined = "joined_rows r ?evd ?vpd"
  assume ret: "join r evpn vpn rows = Inr rows'"
  have he': "hashable (evpn_network_instance e)" if "e \<in> set evpn" for e
    using ret that by (rule join_Inr(1))
  have hv': "hashable (vpn_network_instance v)" if "v \<in> set vpn" for v
    using ret that by (rule join_Inr(2))
  have "join r evpn vpn rows = Inr (rows @ ?joined)"
    using he' hv' by (rule join_eq(3))
  with ret have rows': "rows' = rows @ ?joined" by simp
  show "\<exists>bgp_Evpn_dict bgp_Vpn_dict joined.
         dict_comprehension evpn_network_instance evpn [] = Inr bgp_Evpn_dict \<and>
         dict_comprehension vpn_network_instance vpn [] = Inr bgp_Vpn_dict \<and>
         rows' = rows @ joined \<and>
         length joined \<le> min (length evpn) (length vpn) \<and>
         (\<forall>row\<in>set joined.
            dict_contains bgp_Evpn_dict (row_network_instance row) = Inr True \<and>
            dict_contains bgp_Vpn_dict (row_network_instance row) = Inr True) \<and>
         distinct (map (\<lambda>row. py_key (row_network_instance row)) joined) \<and>
         (\<forall>k. dict_contains bgp_Evpn_dict k = Inr True \<and> dict_contains bgp_Vpn_dict k = Inr True
            \<longrightarrow> (\<exists>row\<in>set joined. py_key (row_network_instance row) = py_key k))"
  proof (intro exI conjI ballI allI impI)
    show "dict_comprehension evpn_network_instance evpn [] = Inr ?evd"
      using he' hv' by (rule join_eq(1))
    show "dict_comprehension vpn_network_instance vpn [] = Inr ?vpd"
      using he' hv' by (rule join_eq(2))
    show "rows' = rows @ ?joined" by (rule rows')
    show "length ?joined \<le> min (length evpn) (length vpn)"
      using joined_length_left [of r evpn_network_instance evpn ?vpd]
        joined_length_right [of r evpn_network_instance evpn vpn_network_instance vpn]
      by simp
    show "dict_contains ?evd (row_network_instance row) = Inr True" if "row \<in> set ?joined" for row
      using he' that by (rule joined_sound(1))
    show "dict_contains ?vpd (row_network_instance row) = Inr True" if "row \<in> set ?joined" for row
      using he' that by (rule joined_sound(2))
    show "distinct (map (\<lambda>row. py_key (row_network_instance row)) ?joined)"
      by (rule joined_distinct)
    show "\<exists>row\<in>set ?joined. py_key (row_network_instance row) = py_key k"
      if both: "dict_contains ?evd k = Inr True \<and> dict_contains ?vpd k = Inr True" for k
    proof -
      obtain e where e: "dict_lookup ?evd k = Some e"
        using both dict_contains_True [of ?evd k] by blast
      obtain v where v: "dict_lookup ?vpd k = Some v"
        using both dict_contains_True [of ?vpd k] by blast
      show ?thesis using joined_complete [OF e v, of r] by blast
    qed
  qed
qed

theorem inner_join_witness:
  "(\<exists>rows'. join ''leaf1'' [ex_evpn_rec ''default'' 1, ex_evpn_rec ''mgmt'' 1]
       [ex_vpn_rec ''default'' 1, ex_vpn_rec ''vrf1'' 1] [] = Inr rows') \<and>
   (\<exists>bgp_Evpn_dict bgp_Vpn_dict joined.
     dict_comprehension evpn_network_instance
       [ex_evpn_rec ''default'' 1, ex_evpn_rec ''mgmt'' 1] [] = Inr bgp_Evpn_dict \<and>
     dict_comprehension vpn_network_instance
       [ex_vpn_rec ''default'' 1, ex_vpn_rec ''vrf1'' 1] [] = Inr bgp_Vpn_dict \<and>
     [make_row ''leaf1'' (PStr ''default'') (ex_evpn_rec ''default'' 1)
        (ex_vpn_rec ''default'' 1)] = [] @ joined \<and>
     length joined \<le> min (length [ex_evpn_rec ''default'' 1, ex_evpn_rec ''mgmt'' 1])
                        (length [ex_vpn_rec ''default'' 1, ex_vpn_rec ''vrf1'' 1]) \<and>
     (\<forall>row\<in>set joined.
        dict_contains bgp_Evpn_dict (row_network_instance row) = Inr True \<and>
        dict_contains bgp_Vpn_dict (row_network_instance row) = Inr True) \<and>
     distinct (map (\<lambda>row. py_key (row_network_instance row)) joined) \<and>
     (\<forall>k. dict_contains bgp_Evpn_dict k = Inr True \<and> dict_contains bgp_Vpn_dict k = Inr True
        \<longrightarrow> (\<exists>row\<in>set joined. py_key (row_network_instance row) = py_key k)))"
proof -
  have h: "(\<forall>e\<in>set [ex_evpn_rec ''default'' 1, ex_evpn_rec ''mgmt'' 1].
        hashable (evpn_network_instance e)) \<and>
      (\<forall>v\<in>set [ex_vpn_rec ''default'' 1, ex_vpn_rec ''vrf1'' 1].
        hashable (vpn_network_instance v))"
    by (simp add: ex_evpn_rec_def ex_vpn_rec_def)
  have ret: "join ''leaf1'' [ex_evpn_rec ''default'' 1, ex_evpn_rec ''mgmt'' 1]
       [ex_vpn_rec ''default'' 1, ex_vpn_rec ''vrf1'' 1] [] =
     Inr [make_row ''leaf1'' (PStr ''default'') (ex_evpn_rec ''default'' 1)
            (ex_vpn_rec ''default'' 1)]"
    by (rule join_scenario)
  note t = inner_join [of "[ex_evpn_rec ''default'' 1, ex_evpn_rec ''mgmt'' 1]"
      "[ex_vpn_rec ''default'' 1, ex_vpn_rec ''vrf1'' 1]" "''leaf1''" "[]"]
  from t h have a: "\<exists>rows'. join ''leaf1'' [ex_evpn_rec ''default'' 1, ex_evpn_rec ''mgmt'' 1]
       [ex_vpn_rec ''default'' 1, ex_vpn_rec ''vrf1'' 1] [] = Inr rows'"
    by (rule conjunct1 [THEN mp])
  from t have c2: "\<forall>rows'. join ''leaf1'' [ex_evpn_rec ''default'' 1, ex_evpn_rec ''mgmt'' 1]
       [ex_vpn_rec ''default'' 1, ex_vpn_rec ''vrf1'' 1] [] = Inr rows' \<longrightarrow>
      (\<exists>bgp_Evpn_dict bgp_Vpn_dict joined.
         dict_comprehension evpn_network_instance
           [ex_evpn_rec ''default'' 1, ex_evpn_rec ''mgmt'' 1] [] = Inr bgp_Evpn_dict \<and>
         dict_comprehension vpn_network_instance
           [ex_vpn_rec ''default'' 1, ex_vpn_rec ''vrf1'' 1] [] = Inr bgp_Vpn_dict \<and>
         rows' = [] @ joined \<and>
         length joined \<le> min (length [ex_evpn_rec ''default'' 1, ex_evpn_rec ''mgmt'' 1])
                        (length [ex_vpn_rec ''default'' 1, ex_vpn_rec ''vrf1'' 1]) \<and>
         (\<forall>row\<in>set joined.
            dict_contains bgp_Evpn_dict (row_network_instance row) = Inr True \<and>
            dict_contains bgp_Vpn_dict (row_network_instance row) = Inr True) \<and>
         distinct (map (\<lambda>row. py_key (row_network_instance row)) joined) \<and>
         (\<forall>k. dict_contains bgp_Evpn_dict k = Inr True \<and> dict_contains bgp_Vpn_dict k = Inr True
            \<longrightarrow> (\<exists>row\<in>set joined. py_key (row_network_instance row) = py_key k)))"
    by (rule conjunct2)
  have b: "\<exists>bgp_Evpn_dict bgp_Vpn_dict joined.
     dict_comprehension evpn_network_instance
       [ex_evpn_rec ''default'' 1, ex_evpn_rec ''mgmt'' 1] [] = Inr bgp_Evpn_dict \<and>
     dict_comprehension vpn_network_instance
       [ex_vpn_rec ''default'' 1, ex_vpn_rec ''vrf1'' 1] [] = Inr bgp_Vpn_dict \<and>
     [make_row ''leaf1'' (PStr ''default'') (ex_evpn_rec ''default'' 1)
        (ex_vpn_rec ''default'' 1)] = [] @ joined \<and>
     length joined \<le> min (length [ex_evpn_rec ''default'' 1, ex_evpn_rec ''mgmt'' 1])
                        (length [ex_vpn_rec ''default'' 1, ex_vpn_rec ''vrf1'' 1]) \<and>
     (\<forall>row\<in>set joined.
        dict_contains bgp_Evpn_dict (row_network_instance row) = Inr True \<and>
        dict_contains bgp_Vpn_dict (row_network_instance row) = Inr True) \<and>
     distinct (map (\<lambda>row. py_key (row_network_instance row)) joined) \<and>
     (\<forall>k. dict_contains bgp_Evpn_dict k = Inr True \<and> dict_contains bgp_Vpn_dict k = Inr True
        \<longrightarrow> (\<exists>row\<in>set joined. py_key (row_network_instance row) = py_key k))"
    by (rule c2 [rule_format, OF ret])
  from a b show ?thesis by (rule conjI)
qed

text \<open>
  C5: whenever the join returns, each dict maps a name to the last record of its list with
  that name, and every row of the join is made from the last EVPN record and the last VPN
  record with the row's instance name: an earlier record with the same name takes no part.
\<close>

theorem last_write_wins:
  assumes ret: "join r evpn vpn rows = Inr rows'"
  shows "\<exists>bgp_Evpn_dict bgp_Vpn_dict joined.
     dict_comprehension evpn_network_instance evpn [] = Inr bgp_Evpn_dict \<and>
     dict_comprehension vpn_network_instance vpn [] = Inr bgp_Vpn_dict \<and>
     rows' = rows @ joined \<and>
     (\<forall>k. dict_lookup bgp_Evpn_dict k = spec_last_named evpn_network_instance evpn k) \<and>
     (\<forall>k. dict_lookup bgp_Vpn_dict k = spec_last_named vpn_network_instance vpn k) \<and>
     (\<forall>row\<in>set joined. \<exists>e v.
        spec_last_named evpn_network_instance evpn (row_network_instance row) = Some e \<and>
        spec_last_named vpn_network_instance vpn (row_network_instance row) = Some v \<and>
        row = make_row r (row_network_instance row) e v)"
proof (intro exI conjI)
  let ?evd = "dict_from evpn_network_instance evpn []"
  let ?vpd = "dict_from vpn_network_instance vpn []"
  let ?joined = "joined_rows r ?evd ?vpd"
  have he': "hashable (evpn_network_instance e)" if "e \<in> set evpn" for e
    using ret that by (rule join_Inr(1))
  have hv': "hashable (vpn_network_instance v)" if "v \<in> set vpn" for v
    using ret that by (rule join_Inr(2))
  show "dict_comprehension evpn_network_instance evpn [] = Inr ?evd"
    using he' hv' by (rule join_eq(1))
  show "dict_comprehension vpn_network_instance vpn [] = Inr ?vpd"
    using he' hv' by (rule join_eq(2))
  have "join r evpn vpn rows = Inr (rows @ ?joined)"
    using he' hv' by (rule join_eq(3))
  with ret show "rows' = rows @ ?joined" by simp
  show "\<forall>k. dict_lookup ?evd k = spec_last_named evpn_network_instance evpn k"
    by (simp only: dict_from_lookup_empty) simp
  show "\<forall>k. dict_lookup ?vpd k = spec_last_named vpn_network_instance vpn k"
    by (simp only: dict_from_lookup_empty) simp
  show "\<forall>row\<in>set ?joined. \<exists>e v.
        spec_last_named evpn_network_instance evpn (row_network_instance row) = Some e \<and>
        spec_last_named vpn_network_instance vpn (row_network_instance row) = Some v \<and>
        row = make_row r (row_network_instance row) e v"
  proof
    fix row assume "row \<in> set ?joined"
    from joined_sound(3) [OF he' this]
    show "\<exists>e v.
        spec_last_named evpn_network_instance evpn (row_network_instance row) = Some e \<and>
        spec_last_named vpn_network_instance vpn (row_network_instance row) = Some v \<and>
        row = make_row r (row_network_instance row) e v"
      by (simp only: dict_from_lookup_empty)
  qed
qed

theorem last_write_wins_witness:
  "\<exists>bgp_Evpn_dict bgp_Vpn_dict joined.
     dict_comprehension evpn_network_instance
       [ex_evpn_rec ''default'' 1, ex_evpn_rec ''default'' 2] [] = Inr bgp_Evpn_dict \<and>
     dict_comprehension vpn_network_instance [ex_vpn_rec ''default'' 1] [] = Inr bgp_Vpn_dict \<and>
     [make_row ''leaf1'' (PStr ''default'') (ex_evpn_rec ''default'' 2)
        (ex_vpn_rec ''default'' 1)] = [] @ joined \<and>
     (\<forall>k. dict_lookup bgp_Evpn_dict k =
        spec_last_named evpn_network_instance
          [ex_evpn_rec ''default'' 1, ex_evpn_rec ''default'' 2] k) \<and>
     (\<forall>k. dict_lookup bgp_Vpn_dict k =
        spec_last_named vpn_network_instance [ex_vpn_rec ''default'' 1] k) \<and>
     (\<forall>row\<in>set joined. \<exists>e v.
        spec_last_named evpn_network_instance
          [ex_evpn_rec ''default'' 1, ex_evpn_rec ''default'' 2] (row_network_instance row) = Some e \<and>
        spec_last_named vpn_network_instance [ex_vpn_rec ''default'' 1]
          (row_network_instance row) = Some v \<and>
        row = make_row ''leaf1'' (row_network_instance row) e v)"
proof -
  have ret: "join ''leaf1'' [ex_evpn_rec ''default'' 1, ex_evpn_rec ''default'' 2]
       [ex_vpn_rec ''default'' 1] [] =
     Inr [make_row ''leaf1'' (PStr ''default'') (ex_evpn_rec ''default'' 2)
            (ex_vpn_rec ''default'' 1)]"
    by (simp add: join_def ex_evpn_rec_def ex_vpn_rec_def dict_contains_def dict_getitem_def)
  show ?thesis by (rule last_write_wins [OF ret])
qed

lemma get_get_nested:
  "absent_or_dict (map_of b k1) \<Longrightarrow> get_get (PDict b) k1 k2 = Inr (spec_nested_lookup b k1 k2)"
  by (cases "map_of b k1" rule: absent_or_dict.cases)
     (simp_all add: get_get_def spec_nested_lookup_def split: option.splits)

lemma spec_vpn_record_fields [simp]:
  "vpn_rd (spec_vpn_record name i b) = spec_nested_lookup b ''route-distinguisher'' ''rd''"
  "vpn_export_rt (spec_vpn_record name i b) = spec_nested_lookup b ''route-target'' ''export-rt''"
  "vpn_import_rt (spec_vpn_record name i b) = spec_nested_lookup b ''route-target'' ''import-rt''"
  by (simp_all add: spec_vpn_record_def)

text \<open>
  C8: for a VPN bgp-instance with an \<^verbatim>\<open>id\<close>, under a network instance with a name,
  in which \<^verbatim>\<open>route-distinguisher\<close> and \<^verbatim>\<open>route-target\<close> are each either absent or
  a dict, the record is built, and each of its three optional fields is the nested lookup of
  its own two keys, \<^verbatim>\<open>None\<close> when either level is absent. In particular the route
  distinguisher is \<^verbatim>\<open>None\<close> when \<^verbatim>\<open>route-distinguisher\<close> is absent, whatever the
  route targets are. When this record is the last VPN record of its name and an EVPN record
  of that name exists, the join has a row of that name whose three VPN columns are these
  three values.
\<close>

theorem vpn_optional_fields:
  assumes name: "py_getitem ni ''name'' = Inr a1"
    and ident: "map_of b ''id'' = Some a2"
    and rd: "absent_or_dict (map_of b ''route-distinguisher'')"
    and rt: "absent_or_dict (map_of b ''route-target'')"
  shows "make_vpn ni (PDict b) = Inr (spec_vpn_record a1 a2 b) \<and>
    (map_of b ''route-distinguisher'' = None \<longrightarrow> vpn_rd (spec_vpn_record a1 a2 b) = PNone) \<and>
    ((\<forall>e\<in>set evpn. hashable (evpn_network_instance e)) \<and>
     (\<forall>v\<in>set vpn. hashable (vpn_network_instance v)) \<and>
     spec_last_named evpn_network_instance evpn a1 = Some e \<and>
     spec_last_named vpn_network_instance vpn a1 = Some (spec_vpn_record a1 a2 b) \<longrightarrow>
     (\<exists>joined. join r evpn vpn rows = Inr (rows @ joined) \<and>
        (\<exists>row\<in>set joined.
           py_key (row_network_instance row) = py_key a1 \<and>
           row_rd row = spec_nested_lookup b ''route-distinguisher'' ''rd'' \<and>
           row_export_rt row = spec_nested_lookup b ''route-target'' ''export-rt'' \<and>
           row_import_rt row = spec_nested_lookup b ''route-target'' ''import-rt'')))"
proof (intro conjI impI)
  show "make_vpn ni (PDict b) = Inr (spec_vpn_record a1 a2 b)"
    using name ident rd rt by (simp add: make_vpn_def get_get_nested spec_vpn_record_def)
  show "vpn_rd (spec_vpn_record a1 a2 b) = PNone" if "map_of b ''route-distinguisher'' = None"
    using that by (simp add: spec_nested_lookup_def)
  assume hyp: "(\<forall>e\<in>set evpn. hashable (evpn_network_instance e)) \<and>
     (\<forall>v\<in>set vpn. hashable (vpn_network_instance v)) \<and>
     spec_last_named evpn_network_instance evpn a1 = Some e \<and>
     spec_last_named vpn_network_instance vpn a1 = Some (spec_vpn_record a1 a2 b)"
  let ?evd = "dict_from evpn_network_instance evpn []"
  let ?vpd = "dict_from vpn_network_instance vpn []"
  let ?v = "spec_vpn_record a1 a2 b"
  have he': "hashable (evpn_network_instance e)" if "e \<in> set evpn" for e
    using hyp that by blast
  have hv': "hashable (vpn_network_instance v)" if "v \<in> set vpn" for v
    using hyp that by blast
  have j: "join r evpn vpn rows = Inr (rows @ joined_rows r ?evd ?vpd)"
    using he' hv' by (rule join_eq(3))
  have le: "dict_lookup ?evd a1 = Some e" using hyp by (simp only: dict_from_lookup_empty)
  have lv: "dict_lookup ?vpd a1 = Some ?v" using hyp by (simp only: dict_from_lookup_empty)
  obtain row where mem: "row \<in> set (joined_rows r ?evd ?vpd)"
    and key: "py_key (row_network_instance row) = py_key a1"
    and row: "row = make_row r (row_network_instance row) e ?v"
    using joined_complete [OF le lv, of r] by blast
  have "row_rd row = spec_nested_lookup b ''route-distinguisher'' ''rd'' \<and>
      row_export_rt row = spec_nested_lookup b ''route-target'' ''export-rt'' \<and>
      row_import_rt row = spec_nested_lookup b ''route-target'' ''import-rt''"
    by (subst row, subst (2) row, subst (3) row) simp
  with mem key have "\<exists>row\<in>set (joined_rows r ?evd ?vpd).
           py_key (row_network_instance row) = py_key a1 \<and>
           row_rd row = spec_nested_lookup b ''route-distinguisher'' ''rd'' \<and>
           row_export_rt row = spec_nested_lookup b ''route-target'' ''export-rt'' \<and>
           row_import_rt row = spec_nested_lookup b ''route-target'' ''import-rt''"
    by blast
  with j show "\<exists>joined. join r evpn vpn rows = Inr (rows @ joined) \<and>
        (\<exists>row\<in>set joined.
           py_key (row_network_instance row) = py_key a1 \<and>
           row_rd row = spec_nested_lookup b ''route-distinguisher'' ''rd'' \<and>
           row_export_rt row = spec_nested_lookup b ''route-target'' ''export-rt'' \<and>
           row_import_rt row = spec_nested_lookup b ''route-target'' ''import-rt'')"
    by blast
qed

theorem vpn_optional_fields_witness:
  "make_vpn (PDict [(''name'', PStr ''default'')]) (PDict ex_vpn_fields) =
     Inr \<lparr>vpn_network_instance = PStr ''default'', vpn_id = PInt 1, vpn_rd = PNone,
          vpn_export_rt = PStr ''target:65000:1'', vpn_import_rt = PStr ''target:65000:2''\<rparr> \<and>
   (\<exists>joined. join ''leaf1'' [ex_evpn_rec ''default'' 1]
        [spec_vpn_record (PStr ''default'') (PInt 1) ex_vpn_fields] [] = Inr joined \<and>
      (\<exists>row\<in>set joined.
         row_network_instance row = PStr ''default'' \<and> row_rd row = PNone \<and>
         row_export_rt row = PStr ''target:65000:1'' \<and>
         row_import_rt row = PStr ''target:65000:2''))"
proof -
  have 1: "py_getitem (PDict [(''name'', PStr ''default'')]) ''name'' = Inr (PStr ''default'')"
    by simp
  have 2: "map_of ex_vpn_fields ''id'' = Some (PInt 1)" by (simp add: ex_vpn_fields_def)
  have 3: "absent_or_dict (map_of ex_vpn_fields ''route-distinguisher'')"
    by (simp add: ex_vpn_fields_def)
  have 4: "absent_or_dict (map_of ex_vpn_fields ''route-target'')"
    by (simp add: ex_vpn_fields_def)
  have 5: "map_of ex_vpn_fields ''route-distinguisher'' = None" by (simp add: ex_vpn_fields_def)
  have 6: "(\<forall>e\<in>set [ex_evpn_rec ''default'' 1]. hashable (evpn_network_instance e)) \<and>
     (\<forall>v\<in>set [spec_vpn_record (PStr ''default'') (PInt 1) ex_vpn_fields].
        hashable (vpn_network_instance v)) \<and>
     spec_last_named evpn_network_instance [ex_evpn_rec ''default'' 1] (PStr ''default'') =
       Some (ex_evpn_rec ''default'' 1) \<and>
     spec_last_named vpn_network_instance
       [spec_vpn_record (PStr ''default'') (PInt 1) ex_vpn_fields] (PStr ''default'') =
       Some (spec_vpn_record (PStr ''default'') (PInt 1) ex_vpn_fields)"
    by (simp add: ex_evpn_rec_def spec_vpn_record_def spec_last_named_def)
  have vals: "spec_nested_lookup ex_vpn_fields ''route-distinguisher'' ''rd'' = PNone"
    "spec_nested_lookup ex_vpn_fields ''route-target'' ''export-rt'' = PStr ''target:65000:1''"
    "spec_nested_lookup ex_vpn_fields ''route-target'' ''import-rt'' = PStr ''target:65000:2''"
    by (simp_all add: spec_nested_lookup_def ex_vpn_fields_def)
  note t = vpn_optional_fields [OF 1 2 3 4, where evpn = "[ex_evpn_rec ''default'' 1]"
      and vpn = "[spec_vpn_record (PStr ''default'') (PInt 1) ex_vpn_fields]"
      and e = "ex_evpn_rec ''default'' 1" and r = "''leaf1''" and rows = "[]"]
  from t have a: "make_vpn (PDict [(''name'', PStr ''default'')]) (PDict ex_vpn_fields) =
      Inr (spec_vpn_record (PStr ''default'') (PInt 1) ex_vpn_fields)"
    by (rule conjunct1)
  from t 6 have b: "\<exists>joined. join ''leaf1'' [ex_evpn_rec ''default'' 1]
        [spec_vpn_record (PStr ''default'') (PInt 1) ex_vpn_fields] [] = Inr ([] @ joined) \<and>
        (\<exists>row\<in>set joined.
           py_key (row_network_instance row) = py_key (PStr ''default'') \<and>
           row_rd row = spec_nested_lookup ex_vpn_fields ''route-distinguisher'' ''rd'' \<and>
           row_export_rt row = spec_nested_lookup ex_vpn_fields ''route-target'' ''export-rt'' \<and>
           row_import_rt row = spec_nested_lookup ex_vpn_fields ''route-target'' ''import-rt'')"
    by blast
  have k: "py_key x = py_key (PStr ''default'') \<longleftrightarrow> x = PStr ''default''" for x
    by (cases x) auto
  from a have a': "make_vpn (PDict [(''name'', PStr ''default'')]) (PDict ex_vpn_fields) =
     Inr \<lparr>vpn_network_instance = PStr ''default'', vpn_id = PInt 1, vpn_rd = PNone,
          vpn_export_rt = PStr ''target:65000:1'', vpn_import_rt = PStr ''target:65000:2''\<rparr>"
    by (simp add: spec_vpn_record_def vals)
  from b have b': "\<exists>joined. join ''leaf1'' [ex_evpn_rec ''default'' 1]
        [spec_vpn_record (PStr ''default'') (PInt 1) ex_vpn_fields] [] = Inr joined \<and>
      (\<exists>row\<in>set joined.
         row_network_instance row = PStr ''default'' \<and> row_rd row = PNone \<and>
         row_export_rt row = PStr ''target:65000:1'' \<and>
         row_import_rt row = PStr ''target:65000:2'')"
    by (simp only: vals k append_Nil)
  from a' b' show ?thesis by (rule conjI)
qed

subsection \<open>A required field that is missing\<close>

lemma make_evpn_Inr:
  assumes "make_evpn ni b = Inr rec"
  shows "py_getitem ni ''name'' = Inr (evpn_network_instance rec)"
    and "py_getitem b ''id'' = Inr (evpn_id rec)"
    and "py_getitem b ''admin-state'' = Inr (evpn_admin_state rec)"
    and "py_getitem b ''vxlan-interface'' = Inr (evpn_vxlan_interface rec)"
    and "py_getitem b ''evi'' = Inr (evpn_evi rec)"
    and "py_getitem b ''ecmp'' = Inr (evpn_ecmp rec)"
  using assms
  by (auto simp: make_evpn_def bind_exn_Inr split: sum.splits bool.splits)

lemma make_evpn_lacks: "lacks_required ni b \<Longrightarrow> isl (make_evpn ni b)"
proof (cases "make_evpn ni b")
  case (Inl e)
  then show ?thesis by simp
next
  case (Inr rec)
  assume "lacks_required ni b"
  with make_evpn_Inr [OF Inr] show ?thesis
    by (simp add: lacks_required_def EVPN_REQUIRED_def)
qed

lemma evpn_bgp_instances_fail:
  "b \<in> set bs \<Longrightarrow> isl (make_evpn ni b) \<Longrightarrow> isl (evpn_bgp_instances ni bs recs)"
proof (induction bs arbitrary: recs)
  case Nil
  then show ?case by simp
next
  case (Cons b' bs)
  show ?case
  proof (cases "make_evpn ni b'")
    case (Inl e)
    then show ?thesis by simp
  next
    case (Inr rec)
    with Cons.prems have "b \<in> set bs" by auto
    then have "isl (evpn_bgp_instances ni bs (recs @ [rec]))"
      using Cons.prems(2) by (rule Cons.IH)
    with Inr show ?thesis by simp
  qed
qed

lemma evpn_instances_fail:
  "ni \<in> set info \<Longrightarrow> evpn_branch ni = Inr bs \<Longrightarrow> b \<in> set bs \<Longrightarrow> isl (make_evpn ni b) \<Longrightarrow>
   isl (evpn_instances info recs)"
proof (induction info arbitrary: recs)
  case Nil
  then show ?case by simp
next
  case (Cons ni' info)
  show ?case
  proof (cases "ni' = ni")
    case True
    have "isl (evpn_bgp_instances ni bs recs)"
      using Cons.prems(3,4) by (rule evpn_bgp_instances_fail)
    then obtain e where "evpn_bgp_instances ni bs recs = Inl e"
      by (cases "evpn_bgp_instances ni bs recs") simp_all
    with True Cons.prems(2) show ?thesis by simp
  next
    case False
    with Cons.prems have mem: "ni \<in> set info" by simp
    have "isl (evpn_instances info recs')" for recs'
      using mem Cons.prems(2,3,4) by (rule Cons.IH)
    then show ?thesis by (simp split: sum.splits)
  qed
qed

lemma build_devices_append:
  "build_devices net (rs1 @ rs2) p u pw sv devs s =
     (case build_devices net rs1 p u pw sv devs s of
        (Inl e, s') \<Rightarrow> (Inl e, s')
      | (Inr devs', s') \<Rightarrow> build_devices net rs2 p u pw sv devs' s')"
  by (induction rs1 arbitrary: devs s) (simp_all split: prod.splits sum.splits)

text \<open>
  The router \<^verbatim>\<open>leaf2\<close> alone gives one row.
\<close>

lemma main_healthy:
  "fst (main ex_missing_evi [''leaf2''] 57400 ''admin'' ''secret'' True ex_state) =
     Inr [make_row ''leaf2'' (PStr ''default'') 
            \<lparr>evpn_network_instance = PStr ''default'', evpn_id = PInt 1,
             evpn_admin_state = PStr ''enable'', evpn_vxlan_interface = PStr ''vxlan1.1'',
             evpn_evi = PInt 10, evpn_ecmp = PInt 2, evpn_oper_state = PStr ''no state''\<rparr>
            (spec_vpn_record (PStr ''default'') (PInt 1) ex_vpn_fields)]"
  by (simp add: main_def SrlDevice_init_eq get_bgp_evpn_info_def get_bgp_vpn_info_def
      get_gnmi_info_eq decoded_def collect_result_def ex_missing_evi_def ex_answer_def
      ex_notification_def ex_instance_def NI_KEY_def evpn_branch_def vpn_branch_def
      make_evpn_def make_vpn_def get_get_def ex_evpn_fields_def ex_vpn_fields_def
      join_def dict_contains_def dict_getitem_def spec_vpn_record_def spec_nested_lookup_def
      device_with_def self_session_def ex_state_def)

text \<open>
  C2, as stated, fails with \<^verbatim>\<open>leaf1\<close> before \<^verbatim>\<open>leaf2\<close> in the roster: the
  \<^verbatim>\<open>KeyError\<close> for \<^verbatim>\<open>evi\<close> leaves \<^verbatim>\<open>main\<close>, nothing has been printed, and the
  only session opened is the first one of \<^verbatim>\<open>leaf1\<close>; \<^verbatim>\<open>leaf2\<close> is not processed.
\<close>

theorem missing_field_counterexample:
  "main ex_missing_evi [''leaf1'', ''leaf2''] 57400 ''admin'' ''secret'' True ex_state =
     (Inl (KeyError (PStr ''evi'')),
      \<lparr>pygnmi_level = 30, stdout = [],
       calls = [\<lparr>c_session = \<lparr>target = (''leaf1'', 57400), s_username = ''admin'',
                               s_password = ''secret'', s_skip_verify = True\<rparr>,
                 c_path = EVPN_PATH, c_level = 50\<rparr>]\<rparr>)"
  by (simp add: main_def SrlDevice_init_eq get_bgp_evpn_info_def get_bgp_vpn_info_def
      get_gnmi_info_eq decoded_def collect_result_def ex_missing_evi_def ex_answer_def
      ex_notification_def ex_instance_def NI_KEY_def evpn_branch_def vpn_branch_def
      make_evpn_def make_vpn_def get_get_def ex_evpn_fields_def ex_vpn_fields_def
      device_with_def self_session_def ex_state_def LOGGING_LEVEL_WARNING_def
      LOGGING_LEVEL_CRITICAL_def)

text \<open>
  C2, amended: let the EVPN fetch of a router return a network instance with a bgp-instance
  in which one of \<^verbatim>\<open>id\<close>, \<^verbatim>\<open>admin-state\<close>, \<^verbatim>\<open>vxlan-interface\<close>, \<^verbatim>\<open>evi\<close>,
  \<^verbatim>\<open>ecmp\<close>, or the \<^verbatim>\<open>name\<close> of the network instance, cannot be read, the routers
  before it in the roster having been constructed. Then the extraction raises, and the same
  exception leaves \<^verbatim>\<open>main\<close>: the process state is the one the failing router's EVPN fetch
  left, so no later router is contacted, and there are no rows.
\<close>

theorem missing_field_aborts:
  assumes ni: "ni \<in> set (fst (get_gnmi_info net
        (device_with r port' username' password' skip_verify' [] []) EVPN_PATH s))"
    and branch: "evpn_branch ni = Inr bs"
    and b: "b \<in> set bs"
    and lacks: "lacks_required ni b"
    and earlier: "build_devices net routers1 port' username' password' skip_verify' [] s0 =
        (Inr devs, s)"
  shows "\<exists>e. fst (get_bgp_evpn_info net
                 (device_with r port' username' password' skip_verify' [] []) s) = Inl e \<and>
     main net (routers1 @ r # routers2) port' username' password' skip_verify' s0 =
       (Inl e, snd (get_gnmi_info net
                 (device_with r port' username' password' skip_verify' [] []) EVPN_PATH s))"
proof -
  let ?self = "device_with r port' username' password' skip_verify' [] []"
  let ?info = "fst (get_gnmi_info net ?self EVPN_PATH s)"
  let ?s1 = "snd (get_gnmi_info net ?self EVPN_PATH s)"
  have "isl (make_evpn ni b)" using lacks by (rule make_evpn_lacks)
  with ni branch b have "isl (evpn_instances ?info [])" by (rule evpn_instances_fail)
  then obtain e where e: "evpn_instances ?info [] = Inl e"
    by (cases "evpn_instances ?info []") simp_all
  have ev: "get_bgp_evpn_info net ?self s = (Inl e, ?s1)"
    using e by (simp add: get_bgp_evpn_info_def case_prod_beta)
  then have init: "SrlDevice_init net r port' DEFAULT_MODEL DEFAULT_RELEASE username' password'
      skip_verify' s = (Inl e, ?s1)"
    by (simp add: SrlDevice_init_eq)
  have "build_devices net (routers1 @ r # routers2) port' username' password' skip_verify' [] s0 =
      (Inl e, ?s1)"
    using earlier init by (simp add: build_devices_append)
  then have "main net (routers1 @ r # routers2) port' username' password' skip_verify' s0 =
      (Inl e, ?s1)"
    by (simp add: main_def)
  with ev show ?thesis by simp
qed

theorem missing_field_aborts_witness:
  "\<exists>e. fst (get_bgp_evpn_info ex_missing_evi
              (device_with ''leaf1'' 57400 ''admin'' ''secret'' True [] []) ex_state) = Inl e \<and>
     main ex_missing_evi ([] @ ''leaf1'' # [''leaf2'']) 57400 ''admin'' ''secret'' True ex_state =
       (Inl e, snd (get_gnmi_info ex_missing_evi
              (device_with ''leaf1'' 57400 ''admin'' ''secret'' True [] []) EVPN_PATH ex_state))"
proof -
  let ?b = "PDict [(''id'', PInt 1), (''admin-state'', PStr ''enable''),
                   (''vxlan-interface'', PStr ''vxlan1.1''), (''ecmp'', PInt 2)]"
  let ?ni = "ex_instance ''default'' [?b] [PDict ex_vpn_fields]"
  have 1: "?ni \<in> set (fst (get_gnmi_info ex_missing_evi
        (device_with ''leaf1'' 57400 ''admin'' ''secret'' True [] []) EVPN_PATH ex_state))"
    by (simp add: get_gnmi_info_eq decoded_def collect_result_def ex_missing_evi_def
        ex_answer_def ex_notification_def ex_instance_def NI_KEY_def)
  have 2: "evpn_branch ?ni = Inr [?b]" by (simp add: evpn_branch_def ex_instance_def)
  have 3: "?b \<in> set [?b]" by simp
  have 4: "lacks_required ?ni ?b" by (simp add: lacks_required_def EVPN_REQUIRED_def)
  have 5: "build_devices ex_missing_evi [] 57400 ''admin'' ''secret'' True [] ex_state =
      (Inr [], ex_state)"
    by simp
  show ?thesis by (rule missing_field_aborts [OF 1 2 3 4 5])
qed

end

